
theory Spec2Isabelle
  imports Main
begin

section \<open>Values exchanged with the cloud provider\<close>

text \<open>
  The two scripts \<^verbatim>\<open>rtmp_new_input.py\<close> (the full builder) and \<^verbatim>\<open>rtmp_quick.py\<close>
  (the quick builder) build one MediaLive \<^verbatim>\<open>create_input\<close> request. A Python value that may
  be \<^verbatim>\<open>None\<close> is an \<open>option\<close>; a dictionary key that may be missing is an \<open>option\<close> field.
  Characters are code points below 256.
\<close>

datatype exn =
    ValueError string
  | ClientError string
  | IndexError string
  | KeyError string
  | TypeError string
  | EOFError
  | SystemExit string
  | OtherError string

datatype json =
    JNull
  | JBool bool
  | JInt int
  | JString string
  | JArray "json list"
  | JObject "(string \<times> json) list"

record input_info =
  info_Id :: string
  info_Name :: "string option"

record resource =
  SubnetId :: "string option"
  CidrBlock :: "string option"
  AvailabilityZone :: "string option"
  GroupId :: "string option"
  GroupName :: "string option"
  Description :: "string option"

record ml_security_group =
  sg_Id :: string
  WhitelistRules :: "string option list option"

record network =
  net_Id :: string
  net_Name :: "string option"

record route =
  Cidr :: string
  Gateway :: "string option"

record destination =
  StreamName :: string
  Network :: "string option"
  StaticIpAddress :: "string option"
  NetworkRoutes :: "route list option"

record vpc_config =
  SubnetIds :: "string list option"
  SecurityGroupIds :: "string list option"

record input_request =
  Name :: string
  Type :: string
  InputNetworkLocation :: string
  Destinations :: "destination list option"
  InputSecurityGroups :: "string list option"
  Vpc :: "vpc_config option"
  RoleArn :: "string option option"
  Tags :: "(string \<times> string) list option"

datatype api_call =
    ListInputs
  | ListInputSecurityGroups
  | ListNetworks
  | DescribeSubnets
  | DescribeSecurityGroups
  | CreateInputSecurityGroup "string list" "(string \<times> string) list"
  | CreateNetwork string "string list" "route list option"
  | CreateInput input_request
  | CreateInputFromConfig json

section \<open>The process state\<close>

text \<open>
  \<open>stdin\<close> holds the lines not read yet, \<open>stdout\<close> the lines printed so far, \<open>calls\<close> the
  API calls made so far (oldest first); \<open>n_choice\<close> and \<open>n_uuid\<close> count the draws taken from
  the two random sources.
\<close>

record world =
  stdin :: "string list"
  stdout :: "string list"
  calls :: "api_call list"
  n_choice :: nat
  n_uuid :: nat

text \<open>
  What the scripts do not decide themselves: the provider's answer to each call (a function
  of the calls made so far, the current one last), the random draws, and the library
  functions \<^verbatim>\<open>ipaddress.ip_network\<close>, \<^verbatim>\<open>repr\<close> and \<^verbatim>\<open>json.load\<close>. The answer to
  \<^verbatim>\<open>create_network\<close> is its \<^verbatim>\<open>Id\<close> entry, if it has one, with the text Python prints for it.
  \<open>int_max_str_digits\<close> is the interpreter's limit on the digits of an integer literal
  (\<^verbatim>\<open>sys.get_int_max_str_digits()\<close>: 4300 unless reconfigured, 0 for no limit);
  \<open>int_limit_first\<close> says whether \<^verbatim>\<open>int()\<close> applies that limit to the leading digits before
  it looks at what follows them, as CPython 3.11 does; \<open>create_input_name\<close> is the text
  Python prints for the called method in a TypeError (its module and qualified name).
\<close>

record env =
  r_list_inputs :: "api_call list \<Rightarrow> exn + input_info list"
  r_list_input_security_groups :: "api_call list \<Rightarrow> exn + ml_security_group list"
  r_list_networks :: "api_call list \<Rightarrow> exn + network list"
  r_describe_subnets :: "api_call list \<Rightarrow> exn + resource list"
  r_describe_security_groups :: "api_call list \<Rightarrow> exn + resource list"
  r_create_input_security_group :: "api_call list \<Rightarrow> exn + string"
  r_create_network :: "api_call list \<Rightarrow> exn + string option \<times> string"
  r_create_input :: "api_call list \<Rightarrow> exn + json"
  choice_draw :: "nat \<Rightarrow> nat"
  uuid4_draw :: "nat \<Rightarrow> string"
  ip_network_ok :: "string \<Rightarrow> bool"
  repr_rules :: "string option list \<Rightarrow> string"
  repr_str :: "string \<Rightarrow> string"
  repr_strs :: "string list \<Rightarrow> string"
  load_json :: "string \<Rightarrow> exn + json"
  int_max_str_digits :: nat
  int_limit_first :: bool
  create_input_name :: string

type_synonym 'a io = "world \<Rightarrow> (exn + 'a) \<times> world"

definition ret :: "'a \<Rightarrow> 'a io" where
  "ret x w = (Inr x, w)"

definition raise :: "exn \<Rightarrow> 'a io" where
  "raise e w = (Inl e, w)"

definition bnd :: "'a io \<Rightarrow> ('a \<Rightarrow> 'b io) \<Rightarrow> 'b io" where
  "bnd m f w = (case m w of (Inl e, w') \<Rightarrow> (Inl e, w') | (Inr x, w') \<Rightarrow> f x w')"

text \<open>\<^verbatim>\<open>try: m except ...\<close>: the handler answers \<open>None\<close> for an exception it does not catch.\<close>

definition try_except :: "'a io \<Rightarrow> (exn \<Rightarrow> 'a io option) \<Rightarrow> 'a io" where
  "try_except m h w =
     (case m w of
        (Inl e, w') \<Rightarrow> (case h e of None \<Rightarrow> (Inl e, w') | Some k \<Rightarrow> k w')
      | (Inr x, w') \<Rightarrow> (Inr x, w'))"

definition print :: "string \<Rightarrow> unit io" where
  "print s w = (Inr (), w\<lparr>stdout := stdout w @ [s]\<rparr>)"

text \<open>\<^verbatim>\<open>input(prompt)\<close> writes the prompt and reads a line; at end of input it raises EOFError.\<close>

definition input :: "string \<Rightarrow> string io" where
  "input prompt w =
     (case stdin w of
        [] \<Rightarrow> (Inl EOFError, w\<lparr>stdout := stdout w @ [prompt]\<rparr>)
      | l # ls \<Rightarrow> (Inr l, w\<lparr>stdin := ls, stdout := stdout w @ [prompt]\<rparr>))"

definition api :: "api_call \<Rightarrow> (api_call list \<Rightarrow> exn + 'a) \<Rightarrow> 'a io" where
  "api c r w = (let w' = w\<lparr>calls := calls w @ [c]\<rparr> in (r (calls w'), w'))"

section \<open>Random names\<close>

definition ascii_lowercase :: string where
  "ascii_lowercase = ''abcdefghijklmnopqrstuvwxyz''"

definition ascii_uppercase :: string where
  "ascii_uppercase = ''ABCDEFGHIJKLMNOPQRSTUVWXYZ''"

definition digits :: string where
  "digits = ''0123456789''"

text \<open>\<^verbatim>\<open>random.choice(seq)\<close> returns \<^verbatim>\<open>seq[i]\<close> for a drawn index \<open>i\<close> below \<^verbatim>\<open>len(seq)\<close>.\<close>

definition random_choice :: "env \<Rightarrow> 'a list \<Rightarrow> 'a io" where
  "random_choice E seq w =
     (if seq = [] then (Inl (IndexError ''Cannot choose from an empty sequence''), w)
      else (Inr (seq ! (choice_draw E (n_choice w) mod length seq)),
            w\<lparr>n_choice := Suc (n_choice w)\<rparr>))"

text \<open>\<^verbatim>\<open>''.join(random.choice(string.ascii_uppercase + string.digits) for _ in range(n))\<close>\<close>

fun random_suffix :: "env \<Rightarrow> nat \<Rightarrow> string io" where
  "random_suffix E 0 = ret []"
| "random_suffix E (Suc n) =
     bnd (random_choice E (ascii_uppercase @ digits)) (\<lambda>c.
     bnd (random_suffix E n) (\<lambda>cs. ret (c # cs)))"

definition uuid4 :: "env \<Rightarrow> string io" where
  "uuid4 E w = (Inr (uuid4_draw E (n_uuid w)), w\<lparr>n_uuid := Suc (n_uuid w)\<rparr>)"

section \<open>Name resolution\<close>

text \<open>
  \<^verbatim>\<open>re.match(r'^[a-zA-Z0-9_-]+$', name)\<close>: one or more characters of the class, then the
  end of the string; Python's \<^verbatim>\<open>$\<close> also matches just before a line feed that ends the string.
\<close>

definition name_chars :: string where
  "name_chars = ascii_lowercase @ ascii_uppercase @ digits @ ''_-''"

definition name_char :: "char \<Rightarrow> bool" where
  "name_char c = (c \<in> set name_chars)"

definition re_match_name :: "string \<Rightarrow> bool" where
  "re_match_name name =
     (let body = (if name \<noteq> [] \<and> last name = CHR 0x0A then butlast name else name)
      in body \<noteq> [] \<and> list_all name_char body)"

definition quote :: string where
  "quote = [CHR 0x27]"

definition truthy_str :: "string option \<Rightarrow> bool" where
  "truthy_str s = (case s of None \<Rightarrow> False | Some t \<Rightarrow> t \<noteq> [])"

text \<open>\<^verbatim>\<open>validate_name(medialive_client, name, attempt=0)\<close> of the full builder.\<close>

function validate_name :: "env \<Rightarrow> string option \<Rightarrow> nat \<Rightarrow> string io" where
  "validate_name E name attempt =
     (if \<not> truthy_str name then
        bnd (uuid4 E) (\<lambda>u. ret (''rtmp-input-'' @ u))
      else if \<not> re_match_name (the name) then
        raise (ValueError ''Input name must be alphanumeric with hyphens/underscores'')
      else
        try_except
          (bnd (api ListInputs (r_list_inputs E)) (\<lambda>existing_inputs.
             if list_ex (\<lambda>input_info. info_Name input_info = name) existing_inputs then
               if attempt \<ge> 3 then
                 raise (ValueError ''Could not generate unique name after 3 attempts'')
               else
                 bnd (random_suffix E 6) (\<lambda>suffix.
                 let new_name = the name @ ''-'' @ suffix in
                 bnd (print (''Warning: Name '' @ quote @ the name @ quote @ '' exists, trying ''
                              @ quote @ new_name @ quote)) (\<lambda>_.
                 validate_name E (Some new_name) (attempt + 1)))
             else ret (the name)))
          (\<lambda>e. case e of
             ClientError m \<Rightarrow>
               Some (bnd (print (''Warning: Name check failed: '' @ m)) (\<lambda>_. ret (the name)))
           | _ \<Rightarrow> None))"
  by pat_completeness auto
termination
  by (relation "measure (\<lambda>(E, name, attempt). 3 - attempt)") auto

text \<open>\<^verbatim>\<open>generate_name(name=None)\<close> of the quick builder.\<close>

definition generate_name :: "env \<Rightarrow> string option \<Rightarrow> string io" where
  "generate_name E name =
     (if \<not> truthy_str name then
        bnd (uuid4 E) (\<lambda>u. ret (''rtmp-input-'' @ u))
      else
        bnd (random_suffix E 6) (\<lambda>suffix. ret (the name @ ''-'' @ suffix)))"

section \<open>Python strings, integers and lists\<close>

definition lift :: "exn + 'a \<Rightarrow> 'a io" where
  "lift r w = (r, w)"

text \<open>\<^verbatim>\<open>str.isspace\<close> on code points below 256, as \<^verbatim>\<open>str.strip()\<close> and \<^verbatim>\<open>int()\<close> use it.\<close>

definition whitespace :: string where
  "whitespace = [CHR 0x09, CHR 0x0A, CHR 0x0B, CHR 0x0C, CHR 0x0D, CHR 0x1C, CHR 0x1D,
                 CHR 0x1E, CHR 0x1F, CHR 0x20, CHR 0x85, CHR 0xA0]"

definition isspace :: "char \<Rightarrow> bool" where
  "isspace c = (c \<in> set whitespace)"

definition strip :: "string \<Rightarrow> string" where
  "strip s = rev (dropWhile isspace (rev (dropWhile isspace s)))"

text \<open>\<^verbatim>\<open>s.split(sep)\<close> for a one-character separator: never an empty list.\<close>

fun split :: "char \<Rightarrow> string \<Rightarrow> string list" where
  "split sep [] = [[]]"
| "split sep (c # cs) =
     (if c = sep then [] # split sep cs
      else (case split sep cs of p # ps \<Rightarrow> (c # p) # ps | [] \<Rightarrow> [[c]]))"

text \<open>\<^verbatim>\<open>s.split(sep, 1)\<close>: cut at the first separator only.\<close>

definition split_once :: "char \<Rightarrow> string \<Rightarrow> string list" where
  "split_once sep s =
     (if sep \<in> set s then [takeWhile (\<lambda>c. c \<noteq> sep) s, tl (dropWhile (\<lambda>c. c \<noteq> sep) s)]
      else [s])"

definition startswith :: "string \<Rightarrow> string \<Rightarrow> bool" where
  "startswith s prefix = (take (length prefix) s = prefix)"

text \<open>\<^verbatim>\<open>s.lower()\<close>, on the letters that matter for a comparison with an ASCII word.\<close>

definition lower_char :: "char \<Rightarrow> char" where
  "lower_char c = (if c \<in> set ascii_uppercase then char_of (of_char c + (32::nat)) else c)"

definition lower :: "string \<Rightarrow> string" where
  "lower s = map lower_char s"

function str_nat :: "nat \<Rightarrow> string" where
  "str_nat n = (if n < 10 then [digits ! n] else str_nat (n div 10) @ [digits ! (n mod 10)])"
  by pat_completeness auto
termination
  by (relation "measure id") auto

definition str_int :: "int \<Rightarrow> string" where
  "str_int i = (if i < 0 then ''-'' @ str_nat (nat (- i)) else str_nat (nat i))"

text \<open>
  \<^verbatim>\<open>int(s)\<close> in base 10: surrounding whitespace is dropped, one sign is allowed, and the
  digits may be separated by single underscores. The leading run of digits and underscores
  is read first; when it has more digits than the interpreter allows (leading zeros
  counted, underscores not; the check is made above 640 digits only) ValueError is raised
  with its own message, and anything after that run makes the literal invalid. Which of
  the two comes first when both apply depends on the interpreter. Strings are lists of
  code points below 256, so the decimal digits of other scripts, which \<^verbatim>\<open>int()\<close> accepts,
  cannot be written.
\<close>

definition digit_val :: "char \<Rightarrow> int" where
  "digit_val c = int (of_char c) - 48"

fun no_double_underscore :: "string \<Rightarrow> bool" where
  "no_double_underscore (a # b # cs) =
     (\<not> (a = CHR ''_'' \<and> b = CHR ''_'') \<and> no_double_underscore (b # cs))"
| "no_double_underscore _ = True"

definition int_literal :: "string \<Rightarrow> bool" where
  "int_literal body =
     (body \<noteq> [] \<and> list_all (\<lambda>c. c \<in> set digits \<or> c = CHR ''_'') body
      \<and> hd body \<noteq> CHR ''_'' \<and> last body \<noteq> CHR ''_'' \<and> no_double_underscore body)"

definition int_value :: "string \<Rightarrow> int" where
  "int_value body = foldl (\<lambda>a c. 10 * a + digit_val c) 0 (filter (\<lambda>c. c \<noteq> CHR ''_'') body)"

definition py_int :: "env \<Rightarrow> string \<Rightarrow> exn + int" where
  "py_int E s =
     (let t = strip s;
          negative = (t \<noteq> [] \<and> hd t = CHR ''-'');
          body = (if t \<noteq> [] \<and> (hd t = CHR ''-'' \<or> hd t = CHR ''+'') then tl t else t);
          run = takeWhile (\<lambda>c. c \<in> set digits \<or> c = CHR ''_'') body;
          n_digits = length (filter (\<lambda>c. c \<noteq> CHR ''_'') run);
          invalid = Inl (ValueError (''invalid literal for int() with base 10: '' @ repr_str E s))
      in if \<not> int_literal run then invalid
         else if run \<noteq> body \<and> \<not> int_limit_first E then invalid
         else if 640 < n_digits \<and> 0 < int_max_str_digits E \<and> int_max_str_digits E < n_digits then
           Inl (ValueError (''Exceeds the limit ('' @ str_nat (int_max_str_digits E)
                  @ '' digits) for integer string conversion: value has '' @ str_nat n_digits
                  @ '' digits; use sys.set_int_max_str_digits() to increase the limit''))
         else if run \<noteq> body then invalid
         else Inr (if negative then - int_value body else int_value body))"

text \<open>\<^verbatim>\<open>xs[i]\<close>: a negative index counts from the end; out of range raises IndexError.\<close>

definition py_nth :: "'a list \<Rightarrow> int \<Rightarrow> exn + 'a" where
  "py_nth xs i =
     (if 0 \<le> i \<and> i < int (length xs) then Inr (xs ! nat i)
      else if i < 0 \<and> - int (length xs) \<le> i then Inr (xs ! nat (int (length xs) + i))
      else Inl (IndexError ''list index out of range''))"

text \<open>\<^verbatim>\<open>d[k] = v\<close> on a dictionary kept as an association list in insertion order.\<close>

fun dict_set :: "('k \<times> 'v) list \<Rightarrow> 'k \<Rightarrow> 'v \<Rightarrow> ('k \<times> 'v) list" where
  "dict_set [] k v = [(k, v)]"
| "dict_set ((k', v') # d) k v = (if k' = k then (k, v) # d else (k', v') # dict_set d k v)"

section \<open>Tag parsing\<close>

text \<open>
  \<^verbatim>\<open>{k: v for tag in args.tags for k, v in [tag.split('=', 1)] if '=' in tag}\<close>, the same
  expression in both builders. The inner \<^verbatim>\<open>for k, v in [...]\<close> unpacks the split token
  before the \<^verbatim>\<open>if\<close> filter is evaluated.
\<close>

fun parse_tags :: "string list \<Rightarrow> (string \<times> string) list \<Rightarrow> exn + (string \<times> string) list" where
  "parse_tags [] d = Inr d"
| "parse_tags (tag # tags) d =
     (case split_once CHR ''='' tag of
        [k, v] \<Rightarrow>
          if CHR ''='' \<in> set tag then parse_tags tags (dict_set d k v) else parse_tags tags d
      | _ \<Rightarrow> Inl (ValueError ''not enough values to unpack (expected 2, got 1)''))"

section \<open>Interactive selection\<close>

text \<open>\<^verbatim>\<open>start, end = map(int, part.split('-'))\<close>: the pieces are converted as they are unpacked.\<close>

definition unpack_range :: "env \<Rightarrow> string list \<Rightarrow> exn + (int \<times> int)" where
  "unpack_range E pieces =
     (case pieces of
        [] \<Rightarrow> Inl (ValueError ''not enough values to unpack (expected 2, got 0)'')
      | [p0] \<Rightarrow>
          (case py_int E p0 of
             Inl e \<Rightarrow> Inl e
           | Inr _ \<Rightarrow> Inl (ValueError ''not enough values to unpack (expected 2, got 1)''))
      | p0 # p1 # rest \<Rightarrow>
          (case py_int E p0 of
             Inl e \<Rightarrow> Inl e
           | Inr a \<Rightarrow>
               (case py_int E p1 of
                  Inl e \<Rightarrow> Inl e
                | Inr b \<Rightarrow>
                    (case rest of
                       [] \<Rightarrow> Inr (a, b)
                     | p2 # _ \<Rightarrow>
                         (case py_int E p2 of
                            Inl e \<Rightarrow> Inl e
                          | Inr _ \<Rightarrow> Inl (ValueError ''too many values to unpack (expected 2)''))))))"

text \<open>
  The body of \<^verbatim>\<open>for part in selection.split(',')\<close>. The set \<^verbatim>\<open>indices\<close> is kept as the list of
  the elements added; its size and its sorted listing go through \<open>remdups\<close>.
\<close>

fun expand_parts :: "env \<Rightarrow> int \<Rightarrow> string list \<Rightarrow> int list \<Rightarrow> exn + int list" where
  "expand_parts E n [] indices = Inr indices"
| "expand_parts E n (part0 # parts) indices =
     (let part = strip part0 in
      if CHR ''-'' \<in> set part then
        (case unpack_range E (split CHR ''-'' part) of
           Inl e \<Rightarrow> Inl e
         | Inr (start, end) \<Rightarrow>
             if 1 \<le> start \<and> start \<le> end \<and> end \<le> n
             then expand_parts E n parts (indices @ [start..end])
             else Inl (ValueError (''Invalid range: '' @ part)))
      else
        (case py_int E part of
           Inl e \<Rightarrow> Inl e
         | Inr v \<Rightarrow>
             if 1 \<le> v \<and> v \<le> n
             then expand_parts E n parts (indices @ [v])
             else Inl (ValueError (''Invalid selection: '' @ str_int v))))"

definition or_na :: "string option \<Rightarrow> string" where
  "or_na v = (case v of None \<Rightarrow> ''N/A'' | Some s \<Rightarrow> s)"

definition get_key :: "string \<Rightarrow> string option \<Rightarrow> exn + string" where
  "get_key k v = (case v of None \<Rightarrow> Inl (KeyError k) | Some s \<Rightarrow> Inr s)"

text \<open>The listing printed before the prompt, one line per candidate, numbered from 1.\<close>

fun print_items :: "nat \<Rightarrow> resource list \<Rightarrow> unit io" where
  "print_items i [] = ret ()"
| "print_items i (item # items) =
     bnd (if SubnetId item \<noteq> None then
            print (str_nat i @ ''. '' @ the (SubnetId item) @ '' - '' @ or_na (CidrBlock item)
                   @ '' - '' @ or_na (AvailabilityZone item))
          else
            bnd (lift (get_key ''GroupId'' (GroupId item))) (\<lambda>g.
            print (str_nat i @ ''. '' @ g @ '' - '' @ or_na (GroupName item)))) (\<lambda>_.
     print_items (Suc i) items)"

fun collect :: "(exn + 'a) list \<Rightarrow> exn + 'a list" where
  "collect [] = Inr []"
| "collect (r # rs) =
     (case r of
        Inl e \<Rightarrow> Inl e
      | Inr x \<Rightarrow> (case collect rs of Inl e \<Rightarrow> Inl e | Inr xs \<Rightarrow> Inr (x # xs)))"

text \<open>
  One pass through the body of \<^verbatim>\<open>while True\<close> after the line has been read: \<open>None\<close> stands
  for going round the loop again (\<^verbatim>\<open>continue\<close>, or the handler of ValueError and IndexError).
\<close>

definition select_round ::
  "env \<Rightarrow> resource list \<Rightarrow> string \<Rightarrow> nat \<Rightarrow> string \<Rightarrow> string list option io" where
  "select_round E items prompt min_count selection =
     try_except
       (bnd (lift (expand_parts E (int (length items)) (split CHR '','' selection) [])) (\<lambda>indices.
          if length (remdups indices) < min_count then
            bnd (print (''Please select at least '' @ str_nat min_count @ '' '' @ prompt @ ''(s).''))
              (\<lambda>_. ret None)
          else if SubnetId (hd items) \<noteq> None then
            bnd (lift (collect (map (\<lambda>i. get_key ''SubnetId'' (SubnetId (items ! nat (i - 1))))
                                (sort (remdups indices)))))
              (\<lambda>ids. ret (Some ids))
          else
            bnd (lift (collect (map (\<lambda>i. get_key ''GroupId'' (GroupId (items ! nat (i - 1))))
                                (sort (remdups indices)))))
              (\<lambda>ids. ret (Some ids))))
       (\<lambda>e. case e of
          ValueError m \<Rightarrow>
            Some (bnd (print (''Invalid selection: '' @ m @ ''. Please try again.'')) (\<lambda>_. ret None))
        | IndexError m \<Rightarrow>
            Some (bnd (print (''Invalid selection: '' @ m @ ''. Please try again.'')) (\<lambda>_. ret None))
        | _ \<Rightarrow> None)"

definition select_prompt :: "string \<Rightarrow> string" where
  "select_prompt prompt =
     [CHR 0x0A] @ ''Select '' @ prompt @ ''(s) (e.g., '' @ quote @ ''1,2'' @ quote @ '' or ''
       @ quote @ ''2-4,6'' @ quote @ ''): ''"

text \<open>The \<^verbatim>\<open>while True\<close> loop of \<^verbatim>\<open>select_resources\<close>: one line of input per round.\<close>

function select_loop :: "env \<Rightarrow> resource list \<Rightarrow> string \<Rightarrow> nat \<Rightarrow> string list io" where
  "select_loop E items prompt min_count w =
     (case input (select_prompt prompt) w of
        (Inl e, w') \<Rightarrow> (Inl e, w')
      | (Inr selection, w') \<Rightarrow>
          (case select_round E items prompt min_count selection w' of
             (Inl e, w'') \<Rightarrow> (Inl e, w'')
           | (Inr None, w'') \<Rightarrow> select_loop E items prompt min_count w''
           | (Inr (Some ids), w'') \<Rightarrow> (Inr ids, w'')))"
  by pat_completeness auto
termination
  apply (relation "measure (\<lambda>(E, items, prompt, min_count, w). length (stdin w))")
   apply simp
  apply (auto simp: input_def select_round_def try_except_def bnd_def lift_def print_def ret_def
      split: list.splits sum.splits exn.splits if_splits prod.splits)
  done

text \<open>\<^verbatim>\<open>select_resources(items, prompt, multiple=False, min_count=1)\<close>\<close>

definition select_resources ::
  "env \<Rightarrow> resource list \<Rightarrow> string \<Rightarrow> bool \<Rightarrow> nat \<Rightarrow> string list io" where
  "select_resources E items prompt multiple min_count =
     (if items = [] then
        bnd (print (''No '' @ prompt @ ''s available in this account/region.'')) (\<lambda>_. ret [])
      else
        bnd (print ([CHR 0x0A] @ ''Available '' @ prompt @ ''s:'')) (\<lambda>_.
        bnd (print_items 1 items) (\<lambda>_.
        select_loop E items prompt min_count)))"

section \<open>The full builder: helpers\<close>

record args =
  arg_config :: "string option"
  arg_name :: "string option"
  arg_app_name :: "string option"
  arg_app_instance :: "string option"
  arg_secondary_app_name :: "string option"
  arg_secondary_app_instance :: "string option"
  arg_source_type :: "string option"
  arg_security_group :: "string option"
  arg_subnets :: "string list option"
  arg_role_arn :: "string option"
  arg_network :: "string option"
  arg_static_ip :: "string option"
  arg_network_routes :: "string list option"
  arg_tags :: "string list option"
  arg_region :: string

record sg_report =
  rep_id :: string
  rep_cidr :: "string option"
  rep_auto_created :: "bool option"
  rep_name :: "string option"
  rep_description :: "string option"

record resource_info =
  ri_subnets :: "string list"
  ri_security_groups :: "sg_report list"
  ri_availability_zones :: "(string \<times> string) list"
  ri_networks :: "string list"

definition truthy_list :: "'a list option \<Rightarrow> bool" where
  "truthy_list xs = (case xs of None \<Rightarrow> False | Some l \<Rightarrow> l \<noteq> [])"

text \<open>\<^verbatim>\<open>a or b\<close> on optional strings, and an optional string inside an f-string.\<close>

definition py_or :: "string option \<Rightarrow> string option \<Rightarrow> string option" where
  "py_or a b = (if truthy_str a then a else b)"

definition str_opt :: "string option \<Rightarrow> string" where
  "str_opt v = (case v of None \<Rightarrow> ''None'' | Some s \<Rightarrow> s)"

text \<open>\<^verbatim>\<open>get_available_resources(region)\<close>\<close>

definition get_available_resources :: "env \<Rightarrow> (resource list \<times> resource list) io" where
  "get_available_resources E =
     try_except
       (bnd (api DescribeSubnets (r_describe_subnets E)) (\<lambda>subnets.
        bnd (api DescribeSecurityGroups (r_describe_security_groups E)) (\<lambda>security_groups.
        ret (subnets, security_groups))))
       (\<lambda>e. case e of
          ClientError m \<Rightarrow>
            Some (bnd (print (''Error fetching resources: '' @ m)) (\<lambda>_. ret ([], [])))
        | _ \<Rightarrow> None)"

text \<open>\<^verbatim>\<open>validate_cidr(cidr)\<close>: whether \<^verbatim>\<open>ipaddress.ip_network(cidr)\<close> accepts the text.\<close>

definition validate_cidr :: "env \<Rightarrow> string \<Rightarrow> bool" where
  "validate_cidr E cidr = ip_network_ok E cidr"

text \<open>\<^verbatim>\<open>get_available_security_groups(medialive_client)\<close>\<close>

definition get_available_security_groups :: "env \<Rightarrow> ml_security_group list io" where
  "get_available_security_groups E =
     try_except
       (api ListInputSecurityGroups (r_list_input_security_groups E))
       (\<lambda>e. case e of
          ClientError m \<Rightarrow>
            Some (bnd (print (''Error fetching MediaLive security groups: '' @ m)) (\<lambda>_. ret []))
        | _ \<Rightarrow> None)"

text \<open>\<^verbatim>\<open>get_available_networks(medialive_client)\<close>\<close>

definition get_available_networks :: "env \<Rightarrow> network list io" where
  "get_available_networks E =
     try_except
       (api ListNetworks (r_list_networks E))
       (\<lambda>e. case e of
          ClientError m \<Rightarrow> Some (bnd (print (''Error fetching networks: '' @ m)) (\<lambda>_. ret []))
        | _ \<Rightarrow> None)"

text \<open>\<^verbatim>\<open>create_medialive_network(medialive_client, name, ip_pools, routes=None)\<close>\<close>

definition create_medialive_network ::
  "env \<Rightarrow> string \<Rightarrow> string list \<Rightarrow> route list option \<Rightarrow> string option io" where
  "create_medialive_network E name ip_pools routes =
     try_except
       (bnd (api (CreateNetwork name ip_pools (if truthy_list routes then routes else None))
               (r_create_network E)) (\<lambda>response.
          case fst response of
            Some network_id \<Rightarrow>
              bnd (print (''Created network '' @ quote @ name @ quote @ '' with ID: '' @ network_id))
                (\<lambda>_. ret (Some network_id))
          | None \<Rightarrow>
              bnd (print (''Error: Unexpected response format: '' @ snd response))
                (\<lambda>_. ret None)))
       (\<lambda>e. case e of
          ClientError m \<Rightarrow> Some (bnd (print (''Error creating network: '' @ m)) (\<lambda>_. ret None))
        | _ \<Rightarrow> None)"

text \<open>The two \<^verbatim>\<open>while True\<close> loops of \<^verbatim>\<open>create_new_network\<close>: IP pools, then routes.\<close>

function read_ip_pools :: "env \<Rightarrow> string list \<Rightarrow> string list io" where
  "read_ip_pools E ip_pools w =
     (case input ''Enter IP pool CIDR (or leave empty to finish adding pools): '' w of
        (Inl e, w') \<Rightarrow> (Inl e, w')
      | (Inr cidr, w') \<Rightarrow>
          if cidr = [] then (Inr ip_pools, w')
          else if validate_cidr E cidr then read_ip_pools E (ip_pools @ [cidr]) w'
          else read_ip_pools E ip_pools (snd (print ''Invalid CIDR format. Please try again.'' w')))"
  by pat_completeness auto
termination
  apply (relation "measure (\<lambda>(E, ip_pools, w). length (stdin w))")
    apply simp
   apply (auto simp: input_def print_def split: list.splits)
  done

function read_routes :: "env \<Rightarrow> route list \<Rightarrow> route list io" where
  "read_routes E routes w =
     (case input ''Enter route CIDR (or leave empty to finish adding routes): '' w of
        (Inl e, w') \<Rightarrow> (Inl e, w')
      | (Inr cidr, w') \<Rightarrow>
          if cidr = [] then (Inr routes, w')
          else if validate_cidr E cidr then
            (case input (''Enter gateway for '' @ cidr @ '': '') w' of
               (Inl e, w'') \<Rightarrow> (Inl e, w'')
             | (Inr gateway, w'') \<Rightarrow>
                 read_routes E (routes @ [\<lparr>Cidr = cidr, Gateway = Some gateway\<rparr>]) w'')
          else read_routes E routes (snd (print ''Invalid CIDR format. Please try again.'' w')))"
  by pat_completeness auto
termination
  apply (relation "measure (\<lambda>(E, routes, w). length (stdin w))")
    apply simp
   apply (auto simp: input_def print_def split: list.splits)
  done

declare read_ip_pools.simps [simp del] read_routes.simps [simp del]

text \<open>\<^verbatim>\<open>create_new_network(medialive_client)\<close>: asks again when no IP pool was given.\<close>

function create_new_network :: "env \<Rightarrow> string option io" where
  "create_new_network E w =
     (case input ''Enter network name: '' w of
        (Inl e, w1) \<Rightarrow> (Inl e, w1)
      | (Inr name, w1) \<Rightarrow>
          (case read_ip_pools E [] w1 of
             (Inl e, w2) \<Rightarrow> (Inl e, w2)
           | (Inr ip_pools, w2) \<Rightarrow>
               if ip_pools = [] then
                 create_new_network E (snd (print ''At least one IP pool is required.'' w2))
               else
                 bnd (input ''Do you want to add network routes? (y/n): '') (\<lambda>answer.
                 bnd (if lower answer = ''y'' then read_routes E [] else ret []) (\<lambda>routes.
                 create_medialive_network E name ip_pools
                   (if routes \<noteq> [] then Some routes else None))) w2))"
  by pat_completeness auto
termination
proof (relation "measure (\<lambda>(E, w). length (stdin w))", goal_cases)
  case 1
  show ?case by simp
next
  case (2 E w x1 w1 name x1a w2 ip_pools)
  have mono: "length (stdin (snd (read_ip_pools E pools v))) \<le> length (stdin v)" for pools v
  proof (induction E pools v rule: read_ip_pools.induct)
    case (1 E ip_pools w)
    show ?case
    proof (cases "stdin w")
      case Nil
      then show ?thesis
        by (subst read_ip_pools.simps) (simp add: input_def)
    next
      case (Cons cidr rest)
      have inp: "input ''Enter IP pool CIDR (or leave empty to finish adding pools): '' w =
          (Inr cidr, w\<lparr>stdin := rest, stdout := stdout w @
             [''Enter IP pool CIDR (or leave empty to finish adding pools): '']\<rparr>)"
        using Cons by (simp add: input_def)
      show ?thesis
        using "1.IH"(1)[OF inp[symmetric] refl] "1.IH"(2)[OF inp[symmetric] refl] Cons
        by (subst read_ip_pools.simps) (auto simp: inp print_def)
    qed
  qed
  from 2 have "length (stdin w1) < length (stdin w)"
    by (auto simp: input_def split: list.splits)
  moreover from 2 mono[of "[]" w1] have "length (stdin w2) \<le> length (stdin w1)"
    by (metis snd_conv)
  ultimately show ?case
    by (simp add: print_def)
qed

declare create_new_network.simps [simp del] select_loop.simps [simp del]

text \<open>The numbered listings printed before a choice is asked for.\<close>

fun print_ml_groups_rules :: "env \<Rightarrow> nat \<Rightarrow> ml_security_group list \<Rightarrow> unit io" where
  "print_ml_groups_rules E i [] = ret ()"
| "print_ml_groups_rules E i (sg # sgs) =
     bnd (print (str_nat i @ ''. '' @ sg_Id sg @ '' - ''
                 @ repr_rules E (case WhitelistRules sg of None \<Rightarrow> [] | Some rs \<Rightarrow> rs))) (\<lambda>_.
     print_ml_groups_rules E (Suc i) sgs)"

fun print_ml_groups_whitelist :: "env \<Rightarrow> nat \<Rightarrow> ml_security_group list \<Rightarrow> unit io" where
  "print_ml_groups_whitelist E i [] = ret ()"
| "print_ml_groups_whitelist E i (sg # sgs) =
     (let whitelist = map or_na (case WhitelistRules sg of None \<Rightarrow> [] | Some rs \<Rightarrow> rs) in
      bnd (print (str_nat i @ ''. '' @ sg_Id sg @ '' - Whitelist: '' @ repr_strs E whitelist)) (\<lambda>_.
      print_ml_groups_whitelist E (Suc i) sgs))"

fun print_networks :: "nat \<Rightarrow> network list \<Rightarrow> unit io" where
  "print_networks i [] = ret ()"
| "print_networks i (n # ns) =
     bnd (print (str_nat i @ ''. '' @ net_Id n @ '' - '' @ or_na (net_Name n))) (\<lambda>_.
     print_networks (Suc i) ns)"

text \<open>\<^verbatim>\<open>any(sg['GroupId'] == x for sg in groups)\<close> and \<^verbatim>\<open>next((sg for sg in groups if sg['GroupId'] == x), {})\<close>\<close>

fun any_group_id :: "resource list \<Rightarrow> string \<Rightarrow> exn + bool" where
  "any_group_id [] x = Inr False"
| "any_group_id (sg # sgs) x =
     (case GroupId sg of
        None \<Rightarrow> Inl (KeyError ''GroupId'')
      | Some g \<Rightarrow> if g = x then Inr True else any_group_id sgs x)"

fun next_group :: "resource list \<Rightarrow> string \<Rightarrow> exn + resource option" where
  "next_group [] x = Inr None"
| "next_group (sg # sgs) x =
     (case GroupId sg of
        None \<Rightarrow> Inl (KeyError ''GroupId'')
      | Some g \<Rightarrow> if g = x then Inr (Some sg) else next_group sgs x)"

definition vpc_sg_report :: "string \<Rightarrow> resource option \<Rightarrow> sg_report" where
  "vpc_sg_report sg_id sg_info =
     \<lparr>rep_id = sg_id, rep_cidr = None, rep_auto_created = None,
      rep_name = Some (case sg_info of None \<Rightarrow> ''Unknown''
                       | Some r \<Rightarrow> (case GroupName r of None \<Rightarrow> ''Unknown'' | Some n \<Rightarrow> n)),
      rep_description = Some (case sg_info of None \<Rightarrow> []
                       | Some r \<Rightarrow> (case Description r of None \<Rightarrow> [] | Some d \<Rightarrow> d))\<rparr>"

text \<open>The loop filling \<^verbatim>\<open>resource_info['availability_zones']\<close>.\<close>

fun az_table :: "resource list \<Rightarrow> (string \<times> string) list \<Rightarrow> exn + (string \<times> string) list" where
  "az_table [] d = Inr d"
| "az_table (subnet # subnets) d =
     (case SubnetId subnet of
        None \<Rightarrow> Inl (KeyError ''SubnetId'')
      | Some k \<Rightarrow>
          az_table subnets
            (dict_set d k (case AvailabilityZone subnet of None \<Rightarrow> ''Unknown'' | Some z \<Rightarrow> z)))"

text \<open>A route token \<^verbatim>\<open>CIDR\<close> or \<^verbatim>\<open>CIDR:GATEWAY\<close>.\<close>

definition parse_route :: "string \<Rightarrow> route" where
  "parse_route r =
     (if CHR '':'' \<in> set r
      then \<lparr>Cidr = split_once CHR '':'' r ! 0, Gateway = Some (split_once CHR '':'' r ! 1)\<rparr>
      else \<lparr>Cidr = r, Gateway = None\<rparr>)"

definition truthy_json :: "json option \<Rightarrow> bool" where
  "truthy_json v =
     (case v of
        None \<Rightarrow> False
      | Some JNull \<Rightarrow> False
      | Some (JBool b) \<Rightarrow> b
      | Some (JInt i) \<Rightarrow> i \<noteq> 0
      | Some (JString t) \<Rightarrow> t \<noteq> []
      | Some (JArray xs) \<Rightarrow> xs \<noteq> []
      | Some (JObject kvs) \<Rightarrow> kvs \<noteq> [])"

text \<open>\<^verbatim>\<open>client.create_input(**config)\<close>: the value after \<^verbatim>\<open>**\<close> must be a mapping.\<close>

definition json_type_name :: "json \<Rightarrow> string" where
  "json_type_name v =
     (case v of
        JNull \<Rightarrow> ''NoneType''
      | JBool b \<Rightarrow> ''bool''
      | JInt i \<Rightarrow> ''int''
      | JString t \<Rightarrow> ''str''
      | JArray xs \<Rightarrow> ''list''
      | JObject kvs \<Rightarrow> ''dict'')"

definition create_input_kwargs :: "env \<Rightarrow> json \<Rightarrow> json io" where
  "create_input_kwargs E config =
     (case config of
        JObject kvs \<Rightarrow> api (CreateInputFromConfig config) (r_create_input E)
      | _ \<Rightarrow> raise (TypeError (create_input_name E
                 @ ''() argument after ** must be a mapping, not '' @ json_type_name config)))"

section \<open>The full builder: the three source types\<close>

text \<open>Lines 248-352 of \<^verbatim>\<open>rtmp_new_input.py\<close>: \<^verbatim>\<open>args.source_type == 'AWS'\<close>.\<close>

definition aws_branch ::
  "env \<Rightarrow> args \<Rightarrow> input_request \<times> resource_info \<Rightarrow> (input_request \<times> resource_info) io" where
  "aws_branch E args st =
     (let input_request = fst st; resource_info = snd st;
          security_group = arg_security_group args in
      bnd (get_available_security_groups E) (\<lambda>ml_security_groups.
      if truthy_str security_group \<and> validate_cidr E (the security_group) then
        bnd (api (CreateInputSecurityGroup [the security_group] [(''AutoCreated'', ''True'')])
               (r_create_input_security_group E)) (\<lambda>sg_id.
        ret (input_request\<lparr>InputSecurityGroups := Some [sg_id]\<rparr>,
             resource_info\<lparr>ri_security_groups := ri_security_groups resource_info @
               [\<lparr>rep_id = sg_id, rep_cidr = security_group, rep_auto_created = Some True,
                 rep_name = None, rep_description = None\<rparr>]\<rparr>))
      else if truthy_str security_group \<and> startswith (the security_group) ''sg-'' then
        if list_ex (\<lambda>sg. sg_Id sg = the security_group) ml_security_groups then
          ret (input_request\<lparr>InputSecurityGroups := Some [the security_group]\<rparr>,
               resource_info\<lparr>ri_security_groups := ri_security_groups resource_info @
                 [\<lparr>rep_id = the security_group, rep_cidr = None, rep_auto_created = Some False,
                   rep_name = None, rep_description = None\<rparr>]\<rparr>)
        else
          bnd (print (''Warning: '' @ the security_group
                      @ '' is not a valid MediaLive security group'')) (\<lambda>_.
          if ml_security_groups \<noteq> [] then
            bnd (print ([CHR 0x0A] @ ''Available MediaLive security groups:'')) (\<lambda>_.
            bnd (print_ml_groups_rules E 1 ml_security_groups) (\<lambda>_.
            bnd (input ([CHR 0x0A] @ ''Select a security group number or enter '' @ quote
                        @ ''new'' @ quote @ '' to create one: '')) (\<lambda>choice.
            bnd (if lower choice = ''new'' then
                   bnd (input ''Enter CIDR to whitelist (e.g., 0.0.0.0/0): '') (\<lambda>cidr.
                   api (CreateInputSecurityGroup [cidr] [(''AutoCreated'', ''True'')])
                     (r_create_input_security_group E))
                 else
                   bnd (lift (py_int E choice)) (\<lambda>c.
                   bnd (lift (py_nth ml_security_groups (c - 1))) (\<lambda>sg.
                   ret (sg_Id sg)))) (\<lambda>sg_id.
            ret (input_request\<lparr>InputSecurityGroups := Some [sg_id]\<rparr>,
                 resource_info\<lparr>ri_security_groups := ri_security_groups resource_info @
                   [\<lparr>rep_id = sg_id, rep_cidr = None, rep_auto_created = Some False,
                     rep_name = None, rep_description = None\<rparr>]\<rparr>)))))
          else
            bnd (input (''No existing MediaLive security groups. ''
                        @ ''Enter CIDR to whitelist (e.g., 0.0.0.0/0): '')) (\<lambda>cidr.
            bnd (api (CreateInputSecurityGroup [cidr] [(''AutoCreated'', ''True'')])
                   (r_create_input_security_group E)) (\<lambda>sg_id.
            ret (input_request\<lparr>InputSecurityGroups := Some [sg_id]\<rparr>,
                 resource_info\<lparr>ri_security_groups := ri_security_groups resource_info @
                   [\<lparr>rep_id = sg_id, rep_cidr = Some cidr, rep_auto_created = Some True,
                     rep_name = None, rep_description = None\<rparr>]\<rparr>))))
      else
        if ml_security_groups \<noteq> [] then
          bnd (print ([CHR 0x0A] @ ''Available MediaLive security groups:'')) (\<lambda>_.
          bnd (print_ml_groups_whitelist E 1 ml_security_groups) (\<lambda>_.
          bnd (input ([CHR 0x0A] @ ''Select a security group number or enter '' @ quote
                      @ ''new'' @ quote @ '' to create one: '')) (\<lambda>choice.
          bnd (if lower choice = ''new'' then
                 bnd (input ''Enter CIDR to whitelist (e.g., 0.0.0.0/0): '') (\<lambda>cidr.
                 api (CreateInputSecurityGroup [cidr] [(''AutoCreated'', ''True'')])
                   (r_create_input_security_group E))
               else
                 bnd (lift (py_int E choice)) (\<lambda>c.
                 bnd (lift (py_nth ml_security_groups (c - 1))) (\<lambda>sg.
                 ret (sg_Id sg)))) (\<lambda>sg_id.
          ret (input_request\<lparr>InputSecurityGroups := Some [sg_id]\<rparr>,
               resource_info\<lparr>ri_security_groups := ri_security_groups resource_info @
                 [\<lparr>rep_id = sg_id, rep_cidr = None, rep_auto_created = Some False,
                   rep_name = None, rep_description = None\<rparr>]\<rparr>)))))
        else
          bnd (input (''No existing MediaLive security groups. ''
                      @ ''Enter CIDR to whitelist (e.g., 0.0.0.0/0): '')) (\<lambda>cidr.
          bnd (api (CreateInputSecurityGroup [cidr] [(''AutoCreated'', ''True'')])
                 (r_create_input_security_group E)) (\<lambda>sg_id.
          ret (input_request\<lparr>InputSecurityGroups := Some [sg_id]\<rparr>,
               resource_info\<lparr>ri_security_groups := ri_security_groups resource_info @
                 [\<lparr>rep_id = sg_id, rep_cidr = Some cidr, rep_auto_created = Some True,
                   rep_name = None, rep_description = None\<rparr>]\<rparr>)))))"

text \<open>Lines 357-373: the subnets of the VPC configuration.\<close>

definition vpc_subnets ::
  "env \<Rightarrow> args \<Rightarrow> resource list \<Rightarrow> vpc_config \<times> resource_info
     \<Rightarrow> (vpc_config \<times> resource_info) io" where
  "vpc_subnets E args available_subnets st =
     (let vpc_config = fst st; resource_info = snd st in
      if truthy_list (arg_subnets args) \<and> length (the (arg_subnets args)) \<ge> 2 then
        bnd (lift (collect (map (\<lambda>s. get_key ''SubnetId'' (SubnetId s)) available_subnets)))
          (\<lambda>valid_subnet_ids.
        let valid_subnets = filter (\<lambda>s. s \<in> set valid_subnet_ids) (the (arg_subnets args)) in
        if length valid_subnets \<ge> 2 then
          ret (vpc_config\<lparr>SubnetIds := Some (take 2 valid_subnets)\<rparr>,
               resource_info\<lparr>ri_subnets := take 2 valid_subnets\<rparr>)
        else
          bnd (print ''Not enough valid subnets provided. Need at least 2.'') (\<lambda>_.
          bnd (select_resources E available_subnets ''subnet'' True 2) (\<lambda>selected.
          ret (vpc_config\<lparr>SubnetIds := Some (take 2 selected)\<rparr>,
               resource_info\<lparr>ri_subnets := take 2 selected\<rparr>))))
      else
        bnd (print ''AWS_VPC source type requires at least 2 subnet IDs.'') (\<lambda>_.
        bnd (select_resources E available_subnets ''subnet'' True 2) (\<lambda>selected.
        ret (vpc_config\<lparr>SubnetIds := Some (take 2 selected)\<rparr>,
             resource_info\<lparr>ri_subnets := take 2 selected\<rparr>))))"

text \<open>Lines 375-395: the security group of the VPC configuration.\<close>

definition vpc_security_group ::
  "env \<Rightarrow> args \<Rightarrow> resource list \<Rightarrow> vpc_config \<times> resource_info
     \<Rightarrow> (vpc_config \<times> resource_info) io" where
  "vpc_security_group E args available_security_groups st =
     (let vpc_config = fst st; resource_info = snd st;
          security_group = arg_security_group args in
      if truthy_str security_group \<and> startswith (the security_group) ''sg-'' then
        bnd (lift (any_group_id available_security_groups (the security_group))) (\<lambda>sg_exists.
        if sg_exists then
          bnd (lift (next_group available_security_groups (the security_group))) (\<lambda>sg_info.
          ret (vpc_config\<lparr>SecurityGroupIds := Some [the security_group]\<rparr>,
               resource_info\<lparr>ri_security_groups := ri_security_groups resource_info @
                 [vpc_sg_report (the security_group) sg_info]\<rparr>))
        else
          bnd (print (''Security group '' @ the security_group @ '' not found.'')) (\<lambda>_.
          bnd (select_resources E available_security_groups ''security group'' False 1)
            (\<lambda>selected.
          bnd (lift (py_nth selected 0)) (\<lambda>sg_id.
          bnd (lift (next_group available_security_groups sg_id)) (\<lambda>sg_info.
          ret (vpc_config\<lparr>SecurityGroupIds := Some [sg_id]\<rparr>,
               resource_info\<lparr>ri_security_groups := ri_security_groups resource_info @
                 [vpc_sg_report sg_id sg_info]\<rparr>))))))
      else ret (vpc_config, resource_info))"

text \<open>Lines 354-398: \<^verbatim>\<open>args.source_type == 'AWS_VPC'\<close>.\<close>

definition aws_vpc_branch ::
  "env \<Rightarrow> args \<Rightarrow> resource list \<Rightarrow> resource list \<Rightarrow> input_request \<times> resource_info
     \<Rightarrow> (input_request \<times> resource_info) io" where
  "aws_vpc_branch E args available_subnets available_security_groups st =
     (let input_request = fst st; resource_info = snd st in
      bnd (vpc_subnets E args available_subnets
             (\<lparr>SubnetIds = None, SecurityGroupIds = None\<rparr>, resource_info)) (\<lambda>st1.
      bnd (vpc_security_group E args available_security_groups st1) (\<lambda>st2.
      bnd (if truthy_str (arg_role_arn args) then ret (the (arg_role_arn args))
           else input ''Enter Role ARN: '') (\<lambda>role_arn.
      ret (input_request\<lparr>Vpc := Some (fst st2), RoleArn := Some (Some role_arn)\<rparr>, snd st2)))))"

text \<open>Lines 400-437: \<^verbatim>\<open>args.source_type == 'ON_PREMISES'\<close>.\<close>

definition on_premises_branch ::
  "env \<Rightarrow> args \<Rightarrow> input_request \<times> resource_info \<Rightarrow> (input_request \<times> resource_info) io" where
  "on_premises_branch E args st =
     (let input_request = fst st; resource_info = snd st in
      bnd (get_available_networks E) (\<lambda>available_networks.
      bnd (if \<not> truthy_str (arg_network args) then
             if available_networks \<noteq> [] then
               bnd (print ([CHR 0x0A] @ ''Available MediaLive networks:'')) (\<lambda>_.
               bnd (print_networks 1 available_networks) (\<lambda>_.
               bnd (input ([CHR 0x0A] @ ''Select a network number or enter '' @ quote @ ''new''
                           @ quote @ '' to create one: '')) (\<lambda>choice.
               if lower choice = ''new'' then create_new_network E
               else
                 bnd (lift (py_int E choice)) (\<lambda>c.
                 bnd (lift (py_nth available_networks (c - 1))) (\<lambda>n.
                 ret (Some (net_Id n)))))))
             else
               bnd (print ''No existing networks found. Creating a new network.'') (\<lambda>_.
               create_new_network E)
           else ret (arg_network args)) (\<lambda>network_id.
      if \<not> truthy_str network_id then
        raise (ValueError ''Network ID is required for ON_PREMISES source type'')
      else
        ret (input_request\<lparr>Destinations :=
               map_option (map (\<lambda>dest. dest\<lparr>
                   Network := network_id,
                   StaticIpAddress :=
                     (if truthy_str (arg_static_ip args) then arg_static_ip args
                      else StaticIpAddress dest),
                   NetworkRoutes :=
                     (if truthy_list (arg_network_routes args)
                      then Some (map parse_route (the (arg_network_routes args)))
                      else NetworkRoutes dest)\<rparr>))
                 (Destinations input_request)\<rparr>,
             resource_info\<lparr>ri_networks := ri_networks resource_info @ [the network_id]\<rparr>))))"

section \<open>The full builder\<close>

definition stream_names :: "args \<Rightarrow> destination list" where
  "stream_names args =
     [\<lparr>StreamName = str_opt (arg_app_name args) @ ''/'' @ str_opt (arg_app_instance args),
       Network = None, StaticIpAddress = None, NetworkRoutes = None\<rparr>,
      \<lparr>StreamName = str_opt (py_or (arg_secondary_app_name args) (arg_app_name args)) @ ''/''
          @ str_opt (py_or (arg_secondary_app_instance args) (arg_app_instance args)),
       Network = None, StaticIpAddress = None, NetworkRoutes = None\<rparr>]"

text \<open>\<^verbatim>\<open>create_rtmp_input(args, direct_config=None)\<close> of \<^verbatim>\<open>rtmp_new_input.py\<close>.\<close>

definition create_rtmp_input :: "env \<Rightarrow> args \<Rightarrow> json option \<Rightarrow> (json \<times> resource_info) io" where
  "create_rtmp_input E args direct_config =
     (let resource_info = \<lparr>ri_subnets = [], ri_security_groups = [],
                           ri_availability_zones = [], ri_networks = []\<rparr> in
      if truthy_json direct_config then
        try_except
          (bnd (create_input_kwargs E (the direct_config)) (\<lambda>response.
           ret (response, resource_info)))
          (\<lambda>e. case e of
             ClientError m \<Rightarrow>
               Some (bnd (print (''Error creating RTMP input from config: '' @ m)) (\<lambda>_.
                     raise (ClientError m)))
           | _ \<Rightarrow> None)
      else
        bnd (validate_name E (arg_name args) 0) (\<lambda>input_name.
        let location = (if arg_source_type args = Some ''ON_PREMISES''
                        then ''ON_PREMISES'' else ''AWS'');
            input_request = \<lparr>Name = input_name, Type = ''RTMP_PUSH'',
                             InputNetworkLocation = location,
                             Destinations =
                               (if truthy_str (arg_app_name args)
                                   \<and> truthy_str (arg_app_instance args)
                                then Some (stream_names args) else None),
                             InputSecurityGroups = None, Vpc = None, RoleArn = None,
                             Tags = None\<rparr>
        in
        bnd (get_available_resources E) (\<lambda>available.
        bnd (lift (az_table (fst available) [])) (\<lambda>zones.
        bnd (if arg_source_type args = Some ''AWS'' then
               aws_branch E args
                 (input_request, resource_info\<lparr>ri_availability_zones := zones\<rparr>)
             else if arg_source_type args = Some ''AWS_VPC'' then
               aws_vpc_branch E args (fst available) (snd available)
                 (input_request, resource_info\<lparr>ri_availability_zones := zones\<rparr>)
             else if arg_source_type args = Some ''ON_PREMISES'' then
               on_premises_branch E args
                 (input_request, resource_info\<lparr>ri_availability_zones := zones\<rparr>)
             else ret (input_request, resource_info\<lparr>ri_availability_zones := zones\<rparr>))
          (\<lambda>st.
        bnd (if truthy_list (arg_tags args) then
               bnd (lift (parse_tags (the (arg_tags args)) [])) (\<lambda>tags.
               ret ((fst st)\<lparr>Tags := Some tags\<rparr>))
             else ret (fst st)) (\<lambda>input_request.
        try_except
          (bnd (api (CreateInput input_request) (r_create_input E)) (\<lambda>response.
           ret (response, snd st)))
          (\<lambda>e. case e of
             ClientError m \<Rightarrow>
               Some (bnd (print (''Error creating RTMP input: '' @ m)) (\<lambda>_.
                     raise (ClientError m)))
           | _ \<Rightarrow> None)))))))"

section \<open>The quick builder\<close>

text \<open>The text of an exception inside an f-string.\<close>

definition exn_text :: "exn \<Rightarrow> string" where
  "exn_text e =
     (case e of
        ValueError m \<Rightarrow> m
      | ClientError m \<Rightarrow> m
      | IndexError m \<Rightarrow> m
      | KeyError k \<Rightarrow> quote @ k @ quote
      | TypeError m \<Rightarrow> m
      | EOFError \<Rightarrow> []
      | SystemExit m \<Rightarrow> m
      | OtherError m \<Rightarrow> m)"

text \<open>\<^verbatim>\<open>load_config(file_path)\<close>: any exception but SystemExit ends the process.\<close>

definition load_config :: "env \<Rightarrow> string \<Rightarrow> json io" where
  "load_config E file_path =
     try_except (lift (load_json E file_path))
       (\<lambda>e. case e of
          SystemExit m \<Rightarrow> None
        | _ \<Rightarrow> Some (raise (SystemExit (''Error loading config: '' @ exn_text e))))"

text \<open>\<^verbatim>\<open>create_security_group(client, cidr)\<close>\<close>

definition create_security_group :: "env \<Rightarrow> string \<Rightarrow> string io" where
  "create_security_group E cidr =
     try_except
       (api (CreateInputSecurityGroup [cidr] [(''AutoCreated'', ''True'')])
          (r_create_input_security_group E))
       (\<lambda>e. case e of
          ClientError m \<Rightarrow> Some (raise (SystemExit (''Error creating security group: '' @ m)))
        | _ \<Rightarrow> None)"

text \<open>\<^verbatim>\<open>create_network(client, name, ip_pools, routes=None)\<close>\<close>

definition create_network :: "env \<Rightarrow> string \<Rightarrow> string list \<Rightarrow> route list option \<Rightarrow> string io" where
  "create_network E name ip_pools routes =
     try_except
       (bnd (api (CreateNetwork name ip_pools (if truthy_list routes then routes else None))
               (r_create_network E)) (\<lambda>response.
        lift (get_key ''Id'' (fst response))))
       (\<lambda>e. case e of
          ClientError m \<Rightarrow> Some (raise (SystemExit (''Error creating network: '' @ m)))
        | _ \<Rightarrow> None)"

text \<open>\<^verbatim>\<open>create_rtmp_input(args)\<close> of \<^verbatim>\<open>rtmp_quick.py\<close>.\<close>

definition quick_create_rtmp_input :: "env \<Rightarrow> args \<Rightarrow> json io" where
  "quick_create_rtmp_input E args =
     try_except
       (if truthy_str (arg_config args) then
          bnd (load_config E (the (arg_config args))) (\<lambda>config.
          create_input_kwargs E config)
        else
          bnd (generate_name E (arg_name args)) (\<lambda>input_name.
          let location = (if arg_source_type args = Some ''ON_PREMISES''
                          then ''ON_PREMISES'' else ''AWS'');
              input_request = \<lparr>Name = input_name, Type = ''RTMP_PUSH'',
                               InputNetworkLocation = location,
                               Destinations = Some (stream_names args),
                               InputSecurityGroups = None, Vpc = None, RoleArn = None,
                               Tags = None\<rparr>
          in
          bnd (if truthy_list (arg_tags args) then
                 bnd (lift (parse_tags (the (arg_tags args)) [])) (\<lambda>tags.
                 ret (input_request\<lparr>Tags := Some tags\<rparr>))
               else ret input_request) (\<lambda>input_request.
          bnd (if arg_source_type args = Some ''AWS'' then
                 if truthy_str (arg_security_group args)
                    \<and> startswith (the (arg_security_group args)) ''sg-'' then
                   ret (input_request\<lparr>InputSecurityGroups := Some [the (arg_security_group args)]\<rparr>)
                 else
                   (let cidr = (if truthy_str (arg_security_group args)
                                then the (arg_security_group args) else ''0.0.0.0/0'') in
                    bnd (create_security_group E cidr) (\<lambda>sg_id.
                    ret (input_request\<lparr>InputSecurityGroups := Some [sg_id]\<rparr>)))
               else if arg_source_type args = Some ''AWS_VPC'' then
                 if \<not> truthy_list (arg_subnets args) \<or> length (the (arg_subnets args)) < 2 then
                   raise (SystemExit ''Error: AWS_VPC requires at least 2 subnets'')
                 else
                   ret (input_request\<lparr>
                          Vpc := Some \<lparr>SubnetIds = Some (take 2 (the (arg_subnets args))),
                                        SecurityGroupIds =
                                          (if truthy_str (arg_security_group args)
                                           then Some [the (arg_security_group args)] else None)\<rparr>,
                          RoleArn := Some (arg_role_arn args)\<rparr>)
               else if arg_source_type args = Some ''ON_PREMISES'' then
                 bnd (if \<not> truthy_str (arg_network args) then
                        bnd (uuid4 E) (\<lambda>u.
                        bnd (create_network E (''network-'' @ u) [''10.0.0.0/24''] None) (\<lambda>n.
                        ret (Some n)))
                      else ret (arg_network args)) (\<lambda>network_id.
                 ret (input_request\<lparr>Destinations :=
                        map_option (map (\<lambda>dest. dest\<lparr>
                            Network := network_id,
                            StaticIpAddress :=
                              (if truthy_str (arg_static_ip args) then arg_static_ip args
                               else StaticIpAddress dest),
                            NetworkRoutes :=
                              (if truthy_list (arg_network_routes args)
                               then Some (map parse_route (the (arg_network_routes args)))
                               else NetworkRoutes dest)\<rparr>))
                          (Destinations input_request)\<rparr>))
               else ret input_request) (\<lambda>input_request.
          api (CreateInput input_request) (r_create_input E)))))
       (\<lambda>e. case e of
          ClientError m \<Rightarrow> Some (raise (SystemExit (''Error: '' @ m)))
        | _ \<Rightarrow> None)"

section \<open>Vocabulary of the properties\<close>

text \<open>
  \<open>drawn_suffix E k\<close> is the six-character suffix obtained from the draws \<open>k, ..., k + 5\<close> of
  the random source; \<open>has_suffix_form name r\<close> says that \<open>r\<close> is \<open>name\<close>, a hyphen and six
  characters of \<^verbatim>\<open>A-Z0-9\<close>; \<open>name_taken existing n\<close> says that an existing input is named \<open>n\<close>.
\<close>

definition drawn_suffix :: "env \<Rightarrow> nat \<Rightarrow> string" where
  "drawn_suffix E k =
     map (\<lambda>i. (ascii_uppercase @ digits) ! (choice_draw E (k + i) mod 36)) [0..<6]"

definition upper_alnum_suffix :: "string \<Rightarrow> bool" where
  "upper_alnum_suffix s = (length s = 6 \<and> list_all (\<lambda>c. c \<in> set (ascii_uppercase @ digits)) s)"

definition has_suffix_form :: "string \<Rightarrow> string \<Rightarrow> bool" where
  "has_suffix_form name r =
     (length r = length name + 7 \<and> take (length name) r = name
      \<and> r ! length name = CHR ''-'' \<and> upper_alnum_suffix (drop (length name + 1) r))"

definition name_taken :: "input_info list \<Rightarrow> string \<Rightarrow> bool" where
  "name_taken existing n = list_ex (\<lambda>input_info. info_Name input_info = Some n) existing"

text \<open>The warning printed when a name is taken.\<close>

definition conflict_warning :: "string \<Rightarrow> string \<Rightarrow> string" where
  "conflict_warning name new_name =
     ''Warning: Name '' @ quote @ name @ quote @ '' exists, trying '' @ quote @ new_name @ quote"










text \<open>
  \<open>sg_tagged c\<close>: a call that creates an input security group carries exactly the tag
  \<^verbatim>\<open>AutoCreated=True\<close>. \<open>extends_tagged w w'\<close>: the call log of \<open>w'\<close> is the log of \<open>w\<close> followed
  by calls that are all \<open>sg_tagged\<close>. \<open>tagged_io m\<close>: running \<open>m\<close> only ever adds such calls.
\<close>

definition sg_tagged :: "api_call \<Rightarrow> bool" where
  "sg_tagged c =
     (case c of
        CreateInputSecurityGroup rules tags \<Rightarrow> tags = [(''AutoCreated'', ''True'')]
      | _ \<Rightarrow> True)"

definition extends_tagged :: "world \<Rightarrow> world \<Rightarrow> bool" where
  "extends_tagged w w' =
     (take (length (calls w)) (calls w') = calls w
      \<and> list_all sg_tagged (drop (length (calls w)) (calls w')))"

definition tagged_io :: "'a io \<Rightarrow> bool" where
  "tagged_io m = (\<forall>w. extends_tagged w (snd (m w)))"



section \<open>A sample environment\<close>

text \<open>
  An account holding one input named \<^verbatim>\<open>studio\<close>, two subnets and one EC2 security group;
  every random draw is index 0, so every drawn character is \<^verbatim>\<open>A\<close>.
\<close>

definition demo_env :: env where
  "demo_env =
     \<lparr> r_list_inputs = (\<lambda>h. Inr [\<lparr>info_Id = ''1'', info_Name = Some ''studio''\<rparr>]),
       r_list_input_security_groups = (\<lambda>h. Inr []),
       r_list_networks = (\<lambda>h. Inr []),
       r_describe_subnets = (\<lambda>h. Inr
         [\<lparr>SubnetId = Some ''subnet-a'', CidrBlock = None, AvailabilityZone = Some ''us-east-2a'',
            GroupId = None, GroupName = None, Description = None\<rparr>,
          \<lparr>SubnetId = Some ''subnet-b'', CidrBlock = None, AvailabilityZone = Some ''us-east-2b'',
            GroupId = None, GroupName = None, Description = None\<rparr>]),
       r_describe_security_groups = (\<lambda>h. Inr
         [\<lparr>SubnetId = None, CidrBlock = None, AvailabilityZone = None,
            GroupId = Some ''sg-1'', GroupName = Some ''default'', Description = None\<rparr>]),
       r_create_input_security_group = (\<lambda>h. Inr ''isg-1''),
       r_create_network = (\<lambda>h. Inr (Some ''net-1'', ''{}'')),
       r_create_input = (\<lambda>h. Inr JNull),
       choice_draw = (\<lambda>k. 0),
       uuid4_draw = (\<lambda>k. ''00000000-0000-4000-8000-000000000000''),
       ip_network_ok = (\<lambda>s. s = ''0.0.0.0/0''),
       repr_rules = (\<lambda>r. ''[]''),
       repr_str = (\<lambda>s. quote @ s @ quote),
       repr_strs = (\<lambda>r. ''[]''),
       load_json = (\<lambda>p. Inr JNull),
       int_max_str_digits = 4300,
       int_limit_first = True,
       create_input_name = ''botocore.client.ClientCreator._create_api_method.<locals>._api_call'' \<rparr>"

definition w0 :: world where
  "w0 = \<lparr> stdin = [], stdout = [], calls = [], n_choice = 0, n_uuid = 0 \<rparr>"

text \<open>Command lines: nothing given, an \<^verbatim>\<open>AWS_VPC\<close> request with three subnets, and a bare \<^verbatim>\<open>AWS\<close> request.\<close>

definition no_args :: args where
  "no_args =
     \<lparr>arg_config = None, arg_name = None, arg_app_name = None, arg_app_instance = None,
      arg_secondary_app_name = None, arg_secondary_app_instance = None,
      arg_source_type = None, arg_security_group = None, arg_subnets = None,
      arg_role_arn = None, arg_network = None, arg_static_ip = None,
      arg_network_routes = None, arg_tags = None, arg_region = ''us-east-2''\<rparr>"

definition vpc_args :: args where
  "vpc_args =
     no_args\<lparr>arg_name := Some ''live'', arg_app_name := Some ''app'',
       arg_app_instance := Some ''one'', arg_source_type := Some ''AWS_VPC'',
       arg_security_group := Some ''sg-1'',
       arg_subnets := Some [''subnet-a'', ''subnet-x'', ''subnet-b''],
       arg_role_arn := Some ''arn:aws:iam::123456789012:role/MediaLiveAccess''\<rparr>"

definition demo_subnets :: "resource list" where
  "demo_subnets =
     [\<lparr>SubnetId = Some ''subnet-a'', CidrBlock = None, AvailabilityZone = Some ''us-east-2a'',
        GroupId = None, GroupName = None, Description = None\<rparr>,
      \<lparr>SubnetId = Some ''subnet-b'', CidrBlock = None, AvailabilityZone = Some ''us-east-2b'',
        GroupId = None, GroupName = None, Description = None\<rparr>]"

definition demo_groups :: "resource list" where
  "demo_groups =
     [\<lparr>SubnetId = None, CidrBlock = None, AvailabilityZone = None,
        GroupId = Some ''sg-1'', GroupName = Some ''default'', Description = None\<rparr>]"

definition aws_args :: args where
  "aws_args =
     no_args\<lparr>arg_app_name := Some ''app'', arg_app_instance := Some ''one'',
       arg_source_type := Some ''AWS''\<rparr>"









text \<open>The same account when \<^verbatim>\<open>list_inputs\<close> is refused by the provider.\<close>

definition failing_env :: env where
  "failing_env = demo_env\<lparr>r_list_inputs := (\<lambda>h. Inl (ClientError ''AccessDeniedException''))\<rparr>"

text \<open>An account where the first retry candidate is taken as well.\<close>

definition crowded_inputs :: "input_info list" where
  "crowded_inputs =
     [\<lparr>info_Id = ''1'', info_Name = Some ''studio''\<rparr>,
      \<lparr>info_Id = ''2'', info_Name = Some ''studio-AAAAAA''\<rparr>]"

definition crowded_env :: env where
  "crowded_env = demo_env\<lparr>r_list_inputs := (\<lambda>h. Inr crowded_inputs)\<rparr>"

section \<open>Properties of the name resolution\<close>

declare validate_name.simps [simp del]

lemmas name_class_defs =
  re_match_name_def name_char_def name_chars_def ascii_lowercase_def ascii_uppercase_def
  digits_def

lemma re_match_name_nonempty: "re_match_name n \<Longrightarrow> n \<noteq> []"
  by (auto simp: re_match_name_def Let_def split: if_splits)

text \<open>
  Claim C5. A name that matches the pattern and that no existing input carries is returned
  unchanged by \<open>validate_name\<close>; the only effect is the one \<^verbatim>\<open>list_inputs\<close> call.
\<close>

theorem validate_name_unused_unchanged:
  assumes "re_match_name n"
    and "r_list_inputs E (calls w @ [ListInputs]) = Inr existing"
    and "\<not> list_ex (\<lambda>i. info_Name i = Some n) existing"
  shows "validate_name E (Some n) attempt w = (Inr n, w\<lparr>calls := calls w @ [ListInputs]\<rparr>)"
  using assms re_match_name_nonempty[OF assms(1)]
  by (subst validate_name.simps)
     (simp add: truthy_str_def try_except_def bnd_def api_def Let_def ret_def)

theorem validate_name_unused_unchanged_witness:
  "re_match_name ''live''
   \<and> r_list_inputs demo_env (calls w0 @ [ListInputs])
       = Inr [\<lparr>info_Id = ''1'', info_Name = Some ''studio''\<rparr>]
   \<and> \<not> list_ex (\<lambda>i. info_Name i = Some ''live'') [\<lparr>info_Id = ''1'', info_Name = Some ''studio''\<rparr>]
   \<and> validate_name demo_env (Some ''live'') 0 w0 = (Inr ''live'', w0\<lparr>calls := calls w0 @ [ListInputs]\<rparr>)"
proof -
  have h1: "re_match_name ''live''"
    by (simp add: name_class_defs)
  have h2: "r_list_inputs demo_env (calls w0 @ [ListInputs])
            = Inr [\<lparr>info_Id = ''1'', info_Name = Some ''studio''\<rparr>]"
    by (simp add: demo_env_def)
  have h3: "\<not> list_ex (\<lambda>i. info_Name i = Some ''live'') [\<lparr>info_Id = ''1'', info_Name = Some ''studio''\<rparr>]"
    by simp
  from validate_name_unused_unchanged [OF h1 h2 h3, of 0] h1 h2 h3 show ?thesis
    by simp
qed

lemma alphabet_length: "length (ascii_uppercase @ digits) = 36"
  by (simp add: ascii_uppercase_def digits_def)

lemma alphabet_nth: "(ascii_uppercase @ digits) ! (j mod 36) \<in> set (ascii_uppercase @ digits)"
proof (rule nth_mem)
  show "j mod 36 < length (ascii_uppercase @ digits)"
    unfolding alphabet_length by simp
qed

lemma random_suffix_draws:
  "random_suffix E n w =
     (Inr (map (\<lambda>i. (ascii_uppercase @ digits) ! (choice_draw E (n_choice w + i) mod 36)) [0..<n]),
      w\<lparr>n_choice := n_choice w + n\<rparr>)"
proof (induction n arbitrary: w)
  case 0
  show ?case by (simp add: ret_def)
next
  case (Suc n)
  have ne: "ascii_uppercase @ digits \<noteq> []"
    using alphabet_length by fastforce
  have step: "random_choice E (ascii_uppercase @ digits) w =
      (Inr ((ascii_uppercase @ digits) ! (choice_draw E (n_choice w) mod 36)),
       w\<lparr>n_choice := Suc (n_choice w)\<rparr>)"
    unfolding random_choice_def alphabet_length using ne by simp
  have idx: "[0..<Suc n] = 0 # map Suc [0..<n]"
    by (simp add: upt_conv_Cons map_Suc_upt del: upt_Suc)
  show ?case
    unfolding random_suffix.simps idx
    by (simp add: bnd_def step Suc.IH ret_def comp_def del: upt_Suc)
qed

lemma random_suffix_6:
  "random_suffix E 6 w = (Inr (drawn_suffix E (n_choice w)), w\<lparr>n_choice := n_choice w + 6\<rparr>)"
  by (simp add: random_suffix_draws drawn_suffix_def)

lemma drawn_suffix_shape: "upper_alnum_suffix (drawn_suffix E k)"
  unfolding upper_alnum_suffix_def drawn_suffix_def list_all_iff
  using alphabet_nth by auto

lemma drawn_suffix_name_chars: "list_all name_char (drawn_suffix E k)"
  using drawn_suffix_shape[of E k]
  unfolding upper_alnum_suffix_def name_char_def name_chars_def list_all_iff
  by auto

lemma strict_match: "n \<noteq> [] \<Longrightarrow> list_all name_char n \<Longrightarrow> re_match_name n"
proof -
  assume a: "n \<noteq> []" "list_all name_char n"
  have "\<not> name_char (CHR 0x0A)" by (simp add: name_class_defs)
  moreover have "name_char (last n)" using a by (simp add: list_all_iff)
  ultimately have "last n \<noteq> CHR 0x0A" by metis
  with a show ?thesis by (simp add: re_match_name_def)
qed


lemma upt_0_6: "[0..<6] = [0, 1, 2, 3, 4, 5::nat]"
  by code_simp

lemma drawn_suffix_demo: "drawn_suffix demo_env k = ''AAAAAA''"
  by (simp add: drawn_suffix_def upt_0_6 demo_env_def ascii_uppercase_def)

lemma try_except_client_error_caught:
  assumes "\<And>m w. fst (k m w) \<noteq> Inl (ClientError m')"
  shows "fst (try_except body (\<lambda>e. case e of ClientError m \<Rightarrow> Some (k m) | _ \<Rightarrow> None) w)
         \<noteq> Inl (ClientError m')"
proof (cases "body w")
  case (Pair r w')
  show ?thesis
  proof (cases r)
    case (Inr x)
    with Pair show ?thesis by (simp add: try_except_def)
  next
    case (Inl e)
    with Pair assms show ?thesis
      by (cases e) (simp_all add: try_except_def)
  qed
qed

lemma validate_name_no_client_error:
  "fst (validate_name E name attempt w) \<noteq> Inl (ClientError m')"
proof -
  consider (absent) "\<not> truthy_str name"
    | (bad) "truthy_str name" "\<not> re_match_name (the name)"
    | (checked) "truthy_str name" "re_match_name (the name)"
    by blast
  then show ?thesis
  proof cases
    case absent
    then show ?thesis
      by (subst validate_name.simps) (simp add: bnd_def uuid4_def ret_def)
  next
    case bad
    then show ?thesis
      by (subst validate_name.simps) (simp add: raise_def)
  next
    case checked
    then show ?thesis
      by (subst validate_name.simps)
         (simp add: try_except_client_error_caught bnd_def print_def ret_def)
  qed
qed

lemma try_except_unchanged:
  assumes "\<And>m. fst (body w) \<noteq> Inl (ClientError m)"
  shows "try_except body (\<lambda>e. case e of ClientError m \<Rightarrow> Some (k m) | _ \<Rightarrow> None) w = body w"
proof (cases "body w")
  case (Pair r w')
  show ?thesis
  proof (cases r)
    case (Inr x)
    with Pair show ?thesis by (simp add: try_except_def)
  next
    case (Inl e)
    with Pair assms have "\<forall>m. e \<noteq> ClientError m" by auto
    with Pair Inl show ?thesis
      by (cases e) (simp_all add: try_except_def)
  qed
qed

text \<open>
  Claim C7, as the code has it. When the \<^verbatim>\<open>list_inputs\<close> call of the name check fails with a
  ClientError, \<open>validate_name\<close> catches it, prints a warning and returns the name it was
  checking: the provider error does not reach the caller (and there is no retry).
\<close>

theorem validate_name_client_error_swallowed:
  assumes "re_match_name n"
    and "r_list_inputs E (calls w @ [ListInputs]) = Inl (ClientError m)"
  shows "validate_name E (Some n) attempt w =
           (Inr n, w\<lparr>calls := calls w @ [ListInputs],
                     stdout := stdout w @ [''Warning: Name check failed: '' @ m]\<rparr>)"
  using assms re_match_name_nonempty[OF assms(1)]
  by (subst validate_name.simps)
     (simp add: truthy_str_def try_except_def bnd_def api_def Let_def ret_def print_def)

theorem validate_name_client_error_swallowed_witness:
  "re_match_name ''studio''
   \<and> r_list_inputs failing_env (calls w0 @ [ListInputs]) = Inl (ClientError ''AccessDeniedException'')
   \<and> validate_name failing_env (Some ''studio'') 0 w0 =
       (Inr ''studio'', w0\<lparr>calls := calls w0 @ [ListInputs],
          stdout := stdout w0 @ [''Warning: Name check failed: '' @ ''AccessDeniedException'']\<rparr>)"
proof -
  have h1: "re_match_name ''studio''"
    by (simp add: name_class_defs)
  have h2: "r_list_inputs failing_env (calls w0 @ [ListInputs])
            = Inl (ClientError ''AccessDeniedException'')"
    by (simp add: failing_env_def)
  from validate_name_client_error_swallowed [OF h1 h2, of 0] h1 h2 show ?thesis
    by simp
qed

text \<open>
  Claim C7 as stated fails: the provider refuses \<^verbatim>\<open>list_inputs\<close>, and the name resolution
  still succeeds with the name \<^verbatim>\<open>studio\<close>.
\<close>

theorem validate_name_client_error_counterexample:
  "r_list_inputs failing_env [ListInputs] = Inl (ClientError ''AccessDeniedException'')
   \<and> fst (validate_name failing_env (Some ''studio'') 0 w0) = Inr ''studio''"
  by (subst validate_name.simps)
     (simp add: failing_env_def demo_env_def w0_def truthy_str_def name_class_defs
        try_except_def bnd_def api_def Let_def ret_def print_def)

text \<open>
  Claim C4, as the code has it. In the full builder a name with a character outside
  \<^verbatim>\<open>[A-Za-z0-9_-]\<close> (a single final line feed apart) is rejected with ValueError before any
  API call, whatever the provider would answer; the quick builder does not validate the
  name and returns it with a random suffix appended.
\<close>

theorem invalid_name_full_rejects_quick_accepts:
  assumes "\<not> list_all name_char (if last n = CHR 0x0A then butlast n else n)"
  shows "validate_name E (Some n) attempt w =
           (Inl (ValueError ''Input name must be alphanumeric with hyphens/underscores''), w)
         \<and> generate_name E (Some n) w =
           (Inr (n @ ''-'' @ drawn_suffix E (n_choice w)), w\<lparr>n_choice := n_choice w + 6\<rparr>)"
proof -
  from assms have ne: "n \<noteq> []" by (auto split: if_splits)
  from assms ne have bad: "\<not> re_match_name n"
    by (auto simp: re_match_name_def)
  from ne bad show ?thesis
    by (subst validate_name.simps)
       (simp add: truthy_str_def raise_def generate_name_def bnd_def random_suffix_6 ret_def)
qed

theorem invalid_name_full_rejects_quick_accepts_witness:
  "\<not> list_all name_char (if last ''my input'' = CHR 0x0A then butlast ''my input'' else ''my input'')
   \<and> validate_name demo_env (Some ''my input'') 0 w0 =
       (Inl (ValueError ''Input name must be alphanumeric with hyphens/underscores''), w0)
   \<and> generate_name demo_env (Some ''my input'') w0 =
       (Inr (''my input'' @ ''-'' @ drawn_suffix demo_env (n_choice w0)),
        w0\<lparr>n_choice := n_choice w0 + 6\<rparr>)"
proof -
  have h: "\<not> list_all name_char
             (if last ''my input'' = CHR 0x0A then butlast ''my input'' else ''my input'')"
    by (simp add: name_class_defs)
  from invalid_name_full_rejects_quick_accepts [OF h, of demo_env 0 w0] h show ?thesis
    by simp
qed

text \<open>
  Claim C4 as stated fails in the quick builder: the name \<^verbatim>\<open>a b\<close> contains a space, and
  \<open>generate_name\<close> returns \<^verbatim>\<open>a b-AAAAAA\<close> instead of failing.
\<close>

theorem generate_name_invalid_counterexample:
  "\<not> name_char (CHR '' '')
   \<and> generate_name demo_env (Some ''a b'') w0 = (Inr ''a b-AAAAAA'', w0\<lparr>n_choice := 6\<rparr>)"
  by (simp add: name_class_defs generate_name_def truthy_str_def bnd_def random_suffix_6 ret_def
      drawn_suffix_demo w0_def)

lemma validate_name_step:
  assumes "n \<noteq> []" and "list_all name_char n" and "\<And>h. r_list_inputs E h = Inr existing"
  shows "validate_name E (Some n) a w =
     (if name_taken existing n then
        if a \<ge> 3 then
          (Inl (ValueError ''Could not generate unique name after 3 attempts''),
           w\<lparr>calls := calls w @ [ListInputs]\<rparr>)
        else
          validate_name E (Some (n @ ''-'' @ drawn_suffix E (n_choice w))) (Suc a)
            (w\<lparr>calls := calls w @ [ListInputs], n_choice := n_choice w + 6,
               stdout := stdout w @ [conflict_warning n (n @ ''-'' @ drawn_suffix E (n_choice w))]\<rparr>)
      else (Inr n, w\<lparr>calls := calls w @ [ListInputs]\<rparr>))"
  (is "?lhs = ?rhs")
proof -
  let ?body = "bnd (api ListInputs (r_list_inputs E)) (\<lambda>existing_inputs.
             if list_ex (\<lambda>input_info. info_Name input_info = Some n) existing_inputs then
               if a \<ge> 3 then
                 raise (ValueError ''Could not generate unique name after 3 attempts'')
               else
                 bnd (random_suffix E 6) (\<lambda>suffix.
                 let new_name = the (Some n) @ ''-'' @ suffix in
                 bnd (print (''Warning: Name '' @ quote @ the (Some n) @ quote @ '' exists, trying ''
                              @ quote @ new_name @ quote)) (\<lambda>_.
                 validate_name E (Some new_name) (a + 1)))
             else ret (the (Some n)))"
  have body_eq: "?body w = ?rhs"
    by (simp add: bnd_def api_def assms(3) random_suffix_6 print_def raise_def ret_def
        name_taken_def conflict_warning_def Let_def)
  have "\<And>m. fst (?body w) \<noteq> Inl (ClientError m)"
    unfolding body_eq by (simp add: validate_name_no_client_error)
  then have "try_except ?body (\<lambda>e. case e of
             ClientError m \<Rightarrow>
               Some (bnd (print (''Warning: Name check failed: '' @ m)) (\<lambda>_. ret (the (Some n))))
           | _ \<Rightarrow> None) w = ?body w"
    by (rule try_except_unchanged)
  moreover have t: "truthy_str (Some n)" "re_match_name (the (Some n))"
    using assms(1,2) by (simp_all add: truthy_str_def strict_match)
  have "validate_name E (Some n) a = try_except ?body (\<lambda>e. case e of
             ClientError m \<Rightarrow>
               Some (bnd (print (''Warning: Name check failed: '' @ m)) (\<lambda>_. ret (the (Some n))))
           | _ \<Rightarrow> None)"
    by (subst validate_name.simps) (simp only: t not_True_eq_False if_False)
  ultimately show ?thesis
    using body_eq by simp
qed

lemma candidate_ok:
  assumes "list_all name_char n"
  shows "n @ ''-'' @ drawn_suffix E k \<noteq> [] \<and> list_all name_char (n @ ''-'' @ drawn_suffix E k)"
proof -
  have "name_char (CHR ''-'')" by (simp add: name_class_defs)
  with assms drawn_suffix_name_chars[of E k] show ?thesis by simp
qed

lemma candidate_form: "has_suffix_form n (n @ ''-'' @ drawn_suffix E k)"
  using drawn_suffix_shape[of E k]
  by (simp add: has_suffix_form_def upper_alnum_suffix_def nth_append)

lemma drawn_suffix_crowded: "drawn_suffix crowded_env k = ''AAAAAA''"
  by (simp add: drawn_suffix_def upt_0_6 crowded_env_def demo_env_def ascii_uppercase_def)

text \<open>
  Claim C1, as the code has it. For a name of characters \<^verbatim>\<open>[A-Za-z0-9_-]\<close> that an existing
  input carries (the inventory being the same at every check), \<open>validate_name\<close> appends a
  hyphen and a fresh 6-character suffix of \<^verbatim>\<open>A-Z0-9\<close> to the name it has just found taken, up
  to three times: it returns the first of the candidates \<open>name-S1\<close>, \<open>name-S1-S2\<close>,
  \<open>name-S1-S2-S3\<close> that no existing input carries, and fails with ValueError when all three
  are taken.
\<close>

theorem validate_name_conflict_retry:
  assumes "n \<noteq> []" and "list_all name_char n"
    and "\<And>h. r_list_inputs E h = Inr existing"
    and "name_taken existing n"
  shows "let c1 = n @ ''-'' @ drawn_suffix E (n_choice w);
             c2 = c1 @ ''-'' @ drawn_suffix E (n_choice w + 6);
             c3 = c2 @ ''-'' @ drawn_suffix E (n_choice w + 12)
         in has_suffix_form n c1 \<and> has_suffix_form c1 c2 \<and> has_suffix_form c2 c3
            \<and> fst (validate_name E (Some n) 0 w) =
                (if \<not> name_taken existing c1 then Inr c1
                 else if \<not> name_taken existing c2 then Inr c2
                 else if \<not> name_taken existing c3 then Inr c3
                 else Inl (ValueError ''Could not generate unique name after 3 attempts''))"
proof -
  define c1 where "c1 = n @ ''-'' @ drawn_suffix E (n_choice w)"
  define c2 where "c2 = c1 @ ''-'' @ drawn_suffix E (n_choice w + 6)"
  define c3 where "c3 = c2 @ ''-'' @ drawn_suffix E (n_choice w + 12)"
  have ok1: "c1 \<noteq> []" "list_all name_char c1"
    unfolding c1_def using candidate_ok[OF assms(2)] by simp_all
  have ok2: "c2 \<noteq> []" "list_all name_char c2"
    unfolding c2_def using candidate_ok[OF ok1(2)] by simp_all
  have ok3: "c3 \<noteq> []" "list_all name_char c3"
    unfolding c3_def using candidate_ok[OF ok2(2)] by simp_all
  have forms: "has_suffix_form n c1 \<and> has_suffix_form c1 c2 \<and> has_suffix_form c2 c3"
    unfolding c1_def c2_def c3_def by (intro conjI candidate_form)
  have s0: "validate_name E (Some n) 0 w =
      validate_name E (Some c1) (Suc 0) (w\<lparr>calls := calls w @ [ListInputs], n_choice := n_choice w + 6,
               stdout := stdout w @ [conflict_warning n c1]\<rparr>)" (is "_ = validate_name E _ _ ?w1")
    unfolding c1_def using assms(4)
    by (subst validate_name_step[OF assms(1,2,3)]) simp
  have s1: "fst (validate_name E (Some c1) (Suc 0) ?w1) =
      (if \<not> name_taken existing c1 then Inr c1
       else fst (validate_name E (Some c2) (Suc (Suc 0))
         (?w1\<lparr>calls := calls ?w1 @ [ListInputs], n_choice := n_choice ?w1 + 6,
               stdout := stdout ?w1 @ [conflict_warning c1 c2]\<rparr>)))"
    (is "_ = (if _ then _ else fst (validate_name E _ _ ?w2))")
    unfolding c2_def
    by (subst validate_name_step[OF ok1 assms(3)]) (simp add: add.assoc)
  have s2: "fst (validate_name E (Some c2) (Suc (Suc 0)) ?w2) =
      (if \<not> name_taken existing c2 then Inr c2
       else fst (validate_name E (Some c3) (Suc (Suc (Suc 0)))
         (?w2\<lparr>calls := calls ?w2 @ [ListInputs], n_choice := n_choice ?w2 + 6,
               stdout := stdout ?w2 @ [conflict_warning c2 c3]\<rparr>)))"
    (is "_ = (if _ then _ else fst (validate_name E _ _ ?w3))")
    unfolding c3_def
    by (subst validate_name_step[OF ok2 assms(3)]) (simp add: add.assoc)
  have s3: "fst (validate_name E (Some c3) (Suc (Suc (Suc 0))) ?w3) =
      (if \<not> name_taken existing c3 then Inr c3
       else Inl (ValueError ''Could not generate unique name after 3 attempts''))"
    by (subst validate_name_step[OF ok3 assms(3)]) simp
  show ?thesis
    unfolding Let_def c1_def[symmetric] c2_def[symmetric] c3_def[symmetric]
    using forms s0 s1 s2 s3 by simp
qed


theorem validate_name_conflict_retry_witness:
  "''studio'' \<noteq> [] \<and> list_all name_char ''studio''
   \<and> (\<forall>h. r_list_inputs demo_env h = Inr [\<lparr>info_Id = ''1'', info_Name = Some ''studio''\<rparr>])
   \<and> name_taken [\<lparr>info_Id = ''1'', info_Name = Some ''studio''\<rparr>] ''studio''
   \<and> has_suffix_form ''studio'' ''studio-AAAAAA''
   \<and> fst (validate_name demo_env (Some ''studio'') 0 w0) = Inr ''studio-AAAAAA''"
proof -
  have h1: "''studio'' \<noteq> []" by simp
  have h2: "list_all name_char ''studio''" by (simp add: name_class_defs)
  have h3: "\<And>h. r_list_inputs demo_env h = Inr [\<lparr>info_Id = ''1'', info_Name = Some ''studio''\<rparr>]"
    by (simp add: demo_env_def)
  have h4: "name_taken [\<lparr>info_Id = ''1'', info_Name = Some ''studio''\<rparr>] ''studio''"
    by (simp add: name_taken_def)
  from validate_name_conflict_retry [OF h1 h2 h3 h4, of w0] h1 h2 h3 h4 show ?thesis
    by (simp add: Let_def drawn_suffix_demo name_taken_def)
qed

text \<open>
  Claim C1 as stated fails: when \<^verbatim>\<open>studio\<close> and \<^verbatim>\<open>studio-AAAAAA\<close> both exist, the resolver
  returns \<^verbatim>\<open>studio-AAAAAA-AAAAAA\<close>, which is not \<^verbatim>\<open>studio\<close> followed by a hyphen and six
  characters.
\<close>

theorem validate_name_second_conflict_counterexample:
  "list_all name_char ''studio'' \<and> name_taken crowded_inputs ''studio''
   \<and> fst (validate_name crowded_env (Some ''studio'') 0 w0) = Inr ''studio-AAAAAA-AAAAAA''
   \<and> \<not> has_suffix_form ''studio'' ''studio-AAAAAA-AAAAAA''"
proof -
  have inv: "\<And>h. r_list_inputs crowded_env h = Inr crowded_inputs"
    by (simp add: crowded_env_def)
  have a0: "''studio'' \<noteq> []" "list_all name_char ''studio''"
    by (simp_all add: name_class_defs)
  have a1: "''studio-AAAAAA'' \<noteq> []" "list_all name_char ''studio-AAAAAA''"
    by (simp_all add: name_class_defs)
  have a2: "''studio-AAAAAA-AAAAAA'' \<noteq> []" "list_all name_char ''studio-AAAAAA-AAAAAA''"
    by (simp_all add: name_class_defs)
  have t0: "name_taken crowded_inputs ''studio''"
    and t1: "name_taken crowded_inputs ''studio-AAAAAA''"
    and t2: "\<not> name_taken crowded_inputs ''studio-AAAAAA-AAAAAA''"
    by (simp_all add: name_taken_def crowded_inputs_def)
  have "fst (validate_name crowded_env (Some ''studio'') 0 w0) = Inr ''studio-AAAAAA-AAAAAA''"
    apply (subst validate_name_step[OF a0 inv])
    apply (simp add: t0 drawn_suffix_crowded)
    apply (subst validate_name_step[OF a1 inv])
    apply (simp add: t1 drawn_suffix_crowded)
    apply (subst validate_name_step[OF a2 inv])
    apply (simp add: t2)
    done
  moreover have "\<not> has_suffix_form ''studio'' ''studio-AAAAAA-AAAAAA''"
    by (simp add: has_suffix_form_def)
  ultimately show ?thesis using a0 t0 by simp
qed


section \<open>Properties of tag parsing\<close>

text \<open>
  Claim C9. The claim expects the token without \<^verbatim>\<open>=\<close> to be dropped, giving
  \<^verbatim>\<open>{"Key": "Value", "A": "B=C"}\<close>. In both builders the comprehension unpacks
  \<^verbatim>\<open>tag.split('=', 1)\<close> into \<^verbatim>\<open>k, v\<close> before its filter runs, so the token \<^verbatim>\<open>NoEquals\<close> raises
  ValueError and no dictionary is produced.
\<close>

theorem parse_tags_token_without_equals_raises:
  "parse_tags [''Key=Value'', ''NoEquals'', ''A=B=C''] []
     = Inl (ValueError ''not enough values to unpack (expected 2, got 1)'')"
  by (simp add: split_once_def)

section \<open>Properties of the request builders\<close>

lemma collect_subnet_ids:
  "list_all (\<lambda>s. SubnetId s \<noteq> None) subnets \<Longrightarrow>
   collect (map (\<lambda>s. get_key ''SubnetId'' (SubnetId s)) subnets)
     = Inr (map (\<lambda>s. the (SubnetId s)) subnets)"
  by (induction subnets) (auto simp: get_key_def)

lemma az_table_ok:
  "list_all (\<lambda>s. SubnetId s \<noteq> None) subnets \<Longrightarrow> \<exists>z. az_table subnets d = Inr z"
  by (induction subnets arbitrary: d) auto

lemma any_group_id_found:
  "list_all (\<lambda>g. GroupId g \<noteq> None) groups \<Longrightarrow> Some x \<in> GroupId ` set groups \<Longrightarrow>
   any_group_id groups x = Inr True"
  by (induction groups) auto


lemma next_group_ok:
  "list_all (\<lambda>g. GroupId g \<noteq> None) groups \<Longrightarrow> \<exists>r. next_group groups x = Inr r"
  by (induction groups) auto

lemma valid_subnets_filter:
  "list_all (\<lambda>s. SubnetId s \<noteq> None) subnets \<Longrightarrow>
   filter (\<lambda>s. s \<in> set (map (\<lambda>s. the (SubnetId s)) subnets)) xs
     = filter (\<lambda>s. Some s \<in> SubnetId ` set subnets) xs"
  by (rule filter_cong) (auto simp: list_all_iff image_iff, force)

lemma get_available_resources_ok:
  assumes "r_describe_subnets E (calls w @ [DescribeSubnets]) = Inr subnets"
    and "r_describe_security_groups E (calls w @ [DescribeSubnets, DescribeSecurityGroups])
         = Inr groups"
  shows "get_available_resources E w =
           (Inr (subnets, groups), w\<lparr>calls := calls w @ [DescribeSubnets, DescribeSecurityGroups]\<rparr>)"
  using assms
  by (simp add: get_available_resources_def try_except_def bnd_def api_def Let_def ret_def)

lemma validate_name_live:
  "validate_name demo_env (Some ''live'') 0 w0 = (Inr ''live'', w0\<lparr>calls := [ListInputs]\<rparr>)"
  by (subst validate_name.simps)
     (simp add: demo_env_def w0_def truthy_str_def name_class_defs
        try_except_def bnd_def api_def Let_def ret_def)

lemma generate_name_calls:
  "\<exists>nm w'. generate_name E name w = (Inr nm, w') \<and> calls w' = calls w \<and> stdin w' = stdin w
     \<and> stdout w' = stdout w"
  by (simp add: generate_name_def bnd_def uuid4_def ret_def random_suffix_6)

text \<open>
  Claim C2. Full builder, source type \<^verbatim>\<open>AWS_VPC\<close>: the caller gives three subnet IDs of which
  exactly two are in the account's subnet inventory, an existing security-group ID (an ID
  of the form \<^verbatim>\<open>sg-...\<close>) and a role ARN. Once the name is resolved, the request handed to
  \<^verbatim>\<open>create_input\<close> has exactly the two valid subnets in the caller's order, the given
  security group, the location \<^verbatim>\<open>AWS\<close> and the role ARN; no line of input is read and
  nothing is printed before the provider answers.
\<close>

theorem vpc_two_valid_subnets_of_three:
  assumes no_config: "\<not> truthy_json direct_config"
    and name_ok: "validate_name E (arg_name args) 0 w = (Inr input_name, w1)"
    and subnets_r: "r_describe_subnets E (calls w1 @ [DescribeSubnets]) = Inr subnets"
    and groups_r: "r_describe_security_groups E
                     (calls w1 @ [DescribeSubnets, DescribeSecurityGroups]) = Inr groups"
    and subnet_ids: "list_all (\<lambda>s. SubnetId s \<noteq> None) subnets"
    and group_ids: "list_all (\<lambda>g. GroupId g \<noteq> None) groups"
    and vpc: "arg_source_type args = Some ''AWS_VPC''"
    and supplied: "arg_subnets args = Some supplied" "length supplied = 3"
    and two_valid: "filter (\<lambda>s. Some s \<in> SubnetId ` set subnets) supplied = [x, y]"
    and sg: "arg_security_group args = Some sg" "startswith sg ''sg-''"
            "Some sg \<in> GroupId ` set groups"
    and role: "arg_role_arn args = Some arn" "arn \<noteq> []"
    and tags_ok: "\<not> truthy_list (arg_tags args) \<or> parse_tags (the (arg_tags args)) [] = Inr tags"
  shows "\<exists>request w'.
           snd (create_rtmp_input E args direct_config w) = w'
           \<and> calls w' = calls w1 @ [DescribeSubnets, DescribeSecurityGroups, CreateInput request]
           \<and> Vpc request = Some \<lparr>SubnetIds = Some [x, y], SecurityGroupIds = Some [sg]\<rparr>
           \<and> InputNetworkLocation request = ''AWS''
           \<and> RoleArn request = Some (Some arn)
           \<and> stdin w' = stdin w1
           \<and> stdout w' = stdout w1 @
               (case r_create_input E (calls w') of
                  Inl (ClientError m) \<Rightarrow> [''Error creating RTMP input: '' @ m]
                | _ \<Rightarrow> [])"
proof -
  obtain zones where z: "az_table subnets [] = Inr zones"
    using az_table_ok[OF subnet_ids] by blast
  obtain info where nx: "next_group groups sg = Inr info"
    using next_group_ok[OF group_ids] by blast
  have sg_nonempty: "sg \<noteq> []"
    using sg(2) by (auto simp: startswith_def)
  have vf: "filter (\<lambda>s. s \<in> (\<lambda>s. the (SubnetId s)) ` set subnets) supplied = [x, y]"
    using valid_subnets_filter[OF subnet_ids, of supplied] two_valid by simp
  have subs: "vpc_subnets E args subnets (\<lparr>SubnetIds = None, SecurityGroupIds = None\<rparr>, ri) v =
      (Inr (\<lparr>SubnetIds = Some [x, y], SecurityGroupIds = None\<rparr>, ri\<lparr>ri_subnets := [x, y]\<rparr>), v)"
    for ri v
    using supplied vf
    by (auto simp: vpc_subnets_def truthy_list_def Let_def bnd_def lift_def ret_def
        collect_subnet_ids[OF subnet_ids])
  have secg: "vpc_security_group E args groups (vc, ri) v =
      (Inr (vc\<lparr>SecurityGroupIds := Some [sg]\<rparr>,
            ri\<lparr>ri_security_groups := ri_security_groups ri @ [vpc_sg_report sg info]\<rparr>), v)"
    for vc ri v
    using sg sg_nonempty
    by (simp add: vpc_security_group_def truthy_str_def Let_def bnd_def lift_def ret_def
        any_group_id_found[OF group_ids sg(3)] nx)
  have branch: "aws_vpc_branch E args subnets groups (rq, ri) v =
      (Inr (rq\<lparr>Vpc := Some \<lparr>SubnetIds = Some [x, y], SecurityGroupIds = Some [sg]\<rparr>,
               RoleArn := Some (Some arn)\<rparr>,
            ri\<lparr>ri_subnets := [x, y],
               ri_security_groups := ri_security_groups ri @ [vpc_sg_report sg info]\<rparr>), v)"
    for rq ri v
    using role
    by (simp add: aws_vpc_branch_def Let_def bnd_def subs secg truthy_str_def ret_def)
  define w2 where "w2 = w1\<lparr>calls := calls w1 @ [DescribeSubnets, DescribeSecurityGroups]\<rparr>"
  define ri where "ri = \<lparr>ri_subnets = [x, y],
      ri_security_groups = [vpc_sg_report sg info],
      ri_availability_zones = zones, ri_networks = []\<rparr>"
  define rq0 where "rq0 = \<lparr>Name = input_name, Type = ''RTMP_PUSH'', InputNetworkLocation = ''AWS'',
      Destinations = (if truthy_str (arg_app_name args) \<and> truthy_str (arg_app_instance args)
                      then Some (stream_names args) else None),
      InputSecurityGroups = None,
      Vpc = Some \<lparr>SubnetIds = Some [x, y], SecurityGroupIds = Some [sg]\<rparr>,
      RoleArn = Some (Some arn), Tags = None\<rparr>"
  define rq where "rq = (if truthy_list (arg_tags args) then rq0\<lparr>Tags := Some tags\<rparr> else rq0)"
  have props: "Vpc rq = Some \<lparr>SubnetIds = Some [x, y], SecurityGroupIds = Some [sg]\<rparr>"
    "InputNetworkLocation rq = ''AWS''" "RoleArn rq = Some (Some arn)"
    by (simp_all add: rq_def rq0_def)
  have fin: "snd (create_rtmp_input E args direct_config w) =
      w2\<lparr>calls := calls w2 @ [CreateInput rq],
         stdout := stdout w2 @
           (case r_create_input E (calls w2 @ [CreateInput rq]) of
              Inl (ClientError m) \<Rightarrow> [''Error creating RTMP input: '' @ m]
            | _ \<Rightarrow> [])\<rparr>"
  proof (cases "truthy_list (arg_tags args)")
    case True
    with tags_ok have "parse_tags (the (arg_tags args)) [] = Inr tags" by simp
    with True no_config vpc show ?thesis
      by (simp add: create_rtmp_input_def Let_def bnd_def name_ok
          get_available_resources_ok[OF subnets_r groups_r] lift_def z branch ret_def
          w2_def ri_def rq_def rq0_def try_except_def api_def print_def raise_def
          split: sum.splits exn.splits)
  next
    case False
    with no_config vpc show ?thesis
      by (simp add: create_rtmp_input_def Let_def bnd_def name_ok
          get_available_resources_ok[OF subnets_r groups_r] lift_def z branch ret_def
          w2_def ri_def rq_def rq0_def try_except_def api_def print_def raise_def
          split: sum.splits exn.splits)
  qed
  show ?thesis
    apply (rule exI[of _ rq])
    apply (rule exI[of _ "snd (create_rtmp_input E args direct_config w)"])
    apply (simp add: props)
    apply (simp add: fin w2_def)
    done
qed


theorem vpc_two_valid_subnets_of_three_witness:
  "\<not> truthy_json None
   \<and> validate_name demo_env (arg_name vpc_args) 0 w0 = (Inr ''live'', w0\<lparr>calls := [ListInputs]\<rparr>)
   \<and> r_describe_subnets demo_env (calls (w0\<lparr>calls := [ListInputs]\<rparr>) @ [DescribeSubnets])
       = Inr demo_subnets
   \<and> r_describe_security_groups demo_env
        (calls (w0\<lparr>calls := [ListInputs]\<rparr>) @ [DescribeSubnets, DescribeSecurityGroups])
       = Inr demo_groups
   \<and> list_all (\<lambda>s. SubnetId s \<noteq> None) demo_subnets
   \<and> list_all (\<lambda>g. GroupId g \<noteq> None) demo_groups
   \<and> arg_source_type vpc_args = Some ''AWS_VPC''
   \<and> arg_subnets vpc_args = Some [''subnet-a'', ''subnet-x'', ''subnet-b'']
   \<and> length [''subnet-a'', ''subnet-x'', ''subnet-b''] = 3
   \<and> filter (\<lambda>s. Some s \<in> SubnetId ` set demo_subnets) [''subnet-a'', ''subnet-x'', ''subnet-b'']
       = [''subnet-a'', ''subnet-b'']
   \<and> arg_security_group vpc_args = Some ''sg-1'' \<and> startswith ''sg-1'' ''sg-''
   \<and> Some ''sg-1'' \<in> GroupId ` set demo_groups
   \<and> arg_role_arn vpc_args = Some ''arn:aws:iam::123456789012:role/MediaLiveAccess''
   \<and> ''arn:aws:iam::123456789012:role/MediaLiveAccess'' \<noteq> []
   \<and> \<not> truthy_list (arg_tags vpc_args)
   \<and> (\<exists>request w'.
         snd (create_rtmp_input demo_env vpc_args None w0) = w'
         \<and> calls w' = [ListInputs, DescribeSubnets, DescribeSecurityGroups, CreateInput request]
         \<and> Vpc request = Some \<lparr>SubnetIds = Some [''subnet-a'', ''subnet-b''],
                                  SecurityGroupIds = Some [''sg-1'']\<rparr>
         \<and> InputNetworkLocation request = ''AWS''
         \<and> stdin w' = [] \<and> stdout w' = [])"
proof -
  have h1: "\<not> truthy_json None" by (simp add: truthy_json_def)
  have h2: "validate_name demo_env (arg_name vpc_args) 0 w0
            = (Inr ''live'', w0\<lparr>calls := [ListInputs]\<rparr>)"
    by (simp add: vpc_args_def no_args_def validate_name_live)
  have h3: "r_describe_subnets demo_env (calls (w0\<lparr>calls := [ListInputs]\<rparr>) @ [DescribeSubnets])
            = Inr demo_subnets"
    by (simp add: demo_env_def demo_subnets_def)
  have h4: "r_describe_security_groups demo_env
        (calls (w0\<lparr>calls := [ListInputs]\<rparr>) @ [DescribeSubnets, DescribeSecurityGroups])
       = Inr demo_groups"
    by (simp add: demo_env_def demo_groups_def)
  have h5: "list_all (\<lambda>s. SubnetId s \<noteq> None) demo_subnets"
    by (simp add: demo_subnets_def)
  have h6: "list_all (\<lambda>g. GroupId g \<noteq> None) demo_groups"
    by (simp add: demo_groups_def)
  have h7: "arg_source_type vpc_args = Some ''AWS_VPC''"
    by (simp add: vpc_args_def)
  have h8: "arg_subnets vpc_args = Some [''subnet-a'', ''subnet-x'', ''subnet-b'']"
    by (simp add: vpc_args_def)
  have h9: "length [''subnet-a'', ''subnet-x'', ''subnet-b''] = 3" by simp
  have h10: "filter (\<lambda>s. Some s \<in> SubnetId ` set demo_subnets)
               [''subnet-a'', ''subnet-x'', ''subnet-b''] = [''subnet-a'', ''subnet-b'']"
    by (simp add: demo_subnets_def)
  have h11: "arg_security_group vpc_args = Some ''sg-1''" by (simp add: vpc_args_def)
  have h12: "startswith ''sg-1'' ''sg-''" by (simp add: startswith_def)
  have h13: "Some ''sg-1'' \<in> GroupId ` set demo_groups" by (simp add: demo_groups_def)
  have h14: "arg_role_arn vpc_args = Some ''arn:aws:iam::123456789012:role/MediaLiveAccess''"
    by (simp add: vpc_args_def)
  have h15: "''arn:aws:iam::123456789012:role/MediaLiveAccess'' \<noteq> []" by simp
  have h16: "\<not> truthy_list (arg_tags vpc_args) \<or> parse_tags (the (arg_tags vpc_args)) [] = Inr []"
    by (simp add: vpc_args_def no_args_def truthy_list_def)
  have resp: "\<And>h. r_create_input demo_env h = Inr JNull"
    by (simp add: demo_env_def)
  from vpc_two_valid_subnets_of_three [OF h1 h2 h3 h4 h5 h6 h7 h8 h9 h10 h11 h12 h13 h14 h15 h16]
  obtain request w' where
    "snd (create_rtmp_input demo_env vpc_args None w0) = w'"
    "calls w' = calls (w0\<lparr>calls := [ListInputs]\<rparr>)
        @ [DescribeSubnets, DescribeSecurityGroups, CreateInput request]"
    "Vpc request = Some \<lparr>SubnetIds = Some [''subnet-a'', ''subnet-b''],
                           SecurityGroupIds = Some [''sg-1'']\<rparr>"
    "InputNetworkLocation request = ''AWS''"
    "stdin w' = stdin (w0\<lparr>calls := [ListInputs]\<rparr>)"
    "stdout w' = stdout (w0\<lparr>calls := [ListInputs]\<rparr>) @
               (case r_create_input demo_env (calls w') of
                  Inl (ClientError m) \<Rightarrow> [''Error creating RTMP input: '' @ m]
                | _ \<Rightarrow> [])"
    by blast
  then have "\<exists>request w'.
         snd (create_rtmp_input demo_env vpc_args None w0) = w'
         \<and> calls w' = [ListInputs, DescribeSubnets, DescribeSecurityGroups, CreateInput request]
         \<and> Vpc request = Some \<lparr>SubnetIds = Some [''subnet-a'', ''subnet-b''],
                                  SecurityGroupIds = Some [''sg-1'']\<rparr>
         \<and> InputNetworkLocation request = ''AWS''
         \<and> stdin w' = [] \<and> stdout w' = []"
    by (simp add: resp w0_def)
  moreover have "\<not> truthy_list (arg_tags vpc_args)"
    by (simp add: vpc_args_def no_args_def truthy_list_def)
  ultimately show ?thesis
    using h1 h2 h3 h4 h5 h6 h7 h8 h9 h10 h11 h12 h13 h14 h15 by blast
qed


text \<open>
  Claim C10. Quick builder, source type \<^verbatim>\<open>AWS\<close>, no security-group value: a new input
  security group whitelisting \<^verbatim>\<open>0.0.0.0/0\<close> is created, and the identifier the provider
  returns for it is the request's \<^verbatim>\<open>InputSecurityGroups\<close>.
\<close>

theorem quick_aws_default_open_group:
  assumes "\<not> truthy_str (arg_config args)"
    and "arg_source_type args = Some ''AWS''"
    and "\<not> truthy_str (arg_security_group args)"
    and "\<not> truthy_list (arg_tags args) \<or> parse_tags (the (arg_tags args)) [] = Inr tags"
    and "r_create_input_security_group E
           (calls w @ [CreateInputSecurityGroup [''0.0.0.0/0''] [(''AutoCreated'', ''True'')]])
         = Inr sg_id"
  shows "\<exists>request.
           calls (snd (quick_create_rtmp_input E args w)) =
             calls w @ [CreateInputSecurityGroup [''0.0.0.0/0''] [(''AutoCreated'', ''True'')],
                        CreateInput request]
           \<and> InputSecurityGroups request = Some [sg_id]"
proof -
  obtain nm w1 where g: "generate_name E (arg_name args) w = (Inr nm, w1)"
    and c: "calls w1 = calls w"
    using generate_name_calls[of E "arg_name args" w] by blast
  show ?thesis
    using assms c
    by (auto simp: quick_create_rtmp_input_def try_except_def bnd_def g ret_def lift_def
        create_security_group_def api_def Let_def raise_def
        split: sum.splits exn.splits prod.splits)
qed


theorem quick_aws_default_open_group_witness:
  "\<not> truthy_str (arg_config aws_args)
   \<and> arg_source_type aws_args = Some ''AWS''
   \<and> \<not> truthy_str (arg_security_group aws_args)
   \<and> \<not> truthy_list (arg_tags aws_args)
   \<and> r_create_input_security_group demo_env
        (calls w0 @ [CreateInputSecurityGroup [''0.0.0.0/0''] [(''AutoCreated'', ''True'')]])
       = Inr ''isg-1''
   \<and> (\<exists>request.
         calls (snd (quick_create_rtmp_input demo_env aws_args w0)) =
           calls w0 @ [CreateInputSecurityGroup [''0.0.0.0/0''] [(''AutoCreated'', ''True'')],
                       CreateInput request]
         \<and> InputSecurityGroups request = Some [''isg-1''])"
proof -
  have h1: "\<not> truthy_str (arg_config aws_args)"
    by (simp add: aws_args_def no_args_def truthy_str_def)
  have h2: "arg_source_type aws_args = Some ''AWS''"
    by (simp add: aws_args_def)
  have h3: "\<not> truthy_str (arg_security_group aws_args)"
    by (simp add: aws_args_def no_args_def truthy_str_def)
  have h4: "\<not> truthy_list (arg_tags aws_args) \<or> parse_tags (the (arg_tags aws_args)) [] = Inr []"
    by (simp add: aws_args_def no_args_def truthy_list_def)
  have h5: "r_create_input_security_group demo_env
        (calls w0 @ [CreateInputSecurityGroup [''0.0.0.0/0''] [(''AutoCreated'', ''True'')]])
       = Inr ''isg-1''"
    by (simp add: demo_env_def)
  have h4': "\<not> truthy_list (arg_tags aws_args)"
    by (simp add: aws_args_def no_args_def truthy_list_def)
  from quick_aws_default_open_group [OF h1 h2 h3 h4 h5] h1 h2 h3 h4' h5 show ?thesis
    by blast
qed

section \<open>Properties of the interactive selection\<close>

declare str_nat.simps [simp del]


lemma py_int_examples:
  "py_int demo_env '' 1_000 '' = Inr 1000"
  "py_int demo_env ''-7'' = Inr (- 7)"
  "py_int demo_env ''+07'' = Inr 7"
  "py_int demo_env ''1__0'' =
     Inl (ValueError (''invalid literal for int() with base 10: '' @ quote @ ''1__0'' @ quote))"
  "py_int demo_env ''12x'' =
     Inl (ValueError (''invalid literal for int() with base 10: '' @ quote @ ''12x'' @ quote))"
  "py_int demo_env [] =
     Inl (ValueError (''invalid literal for int() with base 10: '' @ quote @ quote))"
  by code_simp+
























section \<open>The tag of created security groups\<close>

named_theorems tagged_intros

lemma extends_tagged_iff:
  "extends_tagged w w' \<longleftrightarrow> (\<exists>new. calls w' = calls w @ new \<and> list_all sg_tagged new)"
  unfolding extends_tagged_def
  by (metis append_eq_conv_conj append_take_drop_id)

lemma extends_tagged_refl: "calls w' = calls w \<Longrightarrow> extends_tagged w w'"
  by (simp add: extends_tagged_def)

lemma extends_tagged_trans:
  "extends_tagged w w1 \<Longrightarrow> extends_tagged w1 w2 \<Longrightarrow> extends_tagged w w2"
  unfolding extends_tagged_iff by auto

lemma tagged_ret [tagged_intros]: "tagged_io (ret x)"
  by (simp add: tagged_io_def ret_def extends_tagged_refl)

lemma tagged_raise [tagged_intros]: "tagged_io (raise e)"
  by (simp add: tagged_io_def raise_def extends_tagged_refl)

lemma tagged_lift [tagged_intros]: "tagged_io (lift r)"
  by (simp add: tagged_io_def lift_def extends_tagged_refl)

lemma tagged_print [tagged_intros]: "tagged_io (print s)"
  by (simp add: tagged_io_def print_def extends_tagged_refl)

lemma tagged_input [tagged_intros]: "tagged_io (input p)"
  by (simp add: tagged_io_def input_def extends_tagged_refl split: list.splits)

lemma tagged_uuid4 [tagged_intros]: "tagged_io (uuid4 E)"
  by (simp add: tagged_io_def uuid4_def extends_tagged_refl)

lemma tagged_random_choice [tagged_intros]: "tagged_io (random_choice E xs)"
  by (simp add: tagged_io_def random_choice_def extends_tagged_refl)

lemma tagged_api [tagged_intros]: "sg_tagged c \<Longrightarrow> tagged_io (api c r)"
  by (simp add: tagged_io_def api_def Let_def extends_tagged_def)

lemma tagged_bnd [tagged_intros]:
  assumes "tagged_io m" and "\<And>x. tagged_io (f x)"
  shows "tagged_io (bnd m f)"
  unfolding tagged_io_def
proof
  fix w
  obtain r w1 where m: "m w = (r, w1)" by (cases "m w")
  from assms(1) m have e1: "extends_tagged w w1"
    by (auto simp: tagged_io_def dest: spec[of _ w])
  show "extends_tagged w (snd (bnd m f w))"
  proof (cases r)
    case (Inl e)
    with m e1 show ?thesis by (simp add: bnd_def)
  next
    case (Inr x)
    from assms(2)[of x] have "extends_tagged w1 (snd (f x w1))"
      by (simp add: tagged_io_def)
    with e1 m Inr show ?thesis
      by (auto simp: bnd_def intro: extends_tagged_trans)
  qed
qed

lemma tagged_try [tagged_intros]:
  assumes "tagged_io m" and "\<And>e k. h e = Some k \<Longrightarrow> tagged_io k"
  shows "tagged_io (try_except m h)"
  unfolding tagged_io_def
proof
  fix w
  obtain r w1 where m: "m w = (r, w1)" by (cases "m w")
  from assms(1) m have e1: "extends_tagged w w1"
    by (auto simp: tagged_io_def dest: spec[of _ w])
  show "extends_tagged w (snd (try_except m h w))"
  proof (cases r)
    case (Inr x)
    with m e1 show ?thesis by (simp add: try_except_def)
  next
    case (Inl e)
    show ?thesis
    proof (cases "h e")
      case None
      with m e1 Inl show ?thesis by (simp add: try_except_def)
    next
      case (Some k)
      from assms(2)[OF Some] have "extends_tagged w1 (snd (k w1))"
        by (simp add: tagged_io_def)
      with e1 m Inl Some show ?thesis
        by (auto simp: try_except_def intro: extends_tagged_trans)
    qed
  qed
qed

lemma tagged_if [tagged_intros]:
  "(c \<Longrightarrow> tagged_io a) \<Longrightarrow> (\<not> c \<Longrightarrow> tagged_io b) \<Longrightarrow> tagged_io (if c then a else b)"
  by simp

lemma tagged_random_suffix [tagged_intros]: "tagged_io (random_suffix E n)"
  by (induction n) (auto intro!: tagged_intros)

lemma tagged_generate_name [tagged_intros]: "tagged_io (generate_name E name)"
  unfolding generate_name_def by (intro tagged_intros)

lemma tagged_validate_name_top:
  "3 \<le> attempt \<Longrightarrow> tagged_io (validate_name E name attempt)"
  by (subst validate_name.simps)
     (auto intro!: tagged_intros simp: sg_tagged_def Let_def split: exn.splits)

lemma tagged_validate_name_step:
  assumes "\<And>name. tagged_io (validate_name E name (Suc attempt))"
  shows "tagged_io (validate_name E name attempt)"
  using assms
  by (subst validate_name.simps)
     (auto intro!: tagged_intros simp: sg_tagged_def Let_def split: exn.splits)

lemma tagged_validate_name [tagged_intros]: "tagged_io (validate_name E name attempt)"
proof (induction "3 - attempt" arbitrary: attempt name)
  case 0
  then show ?case by (simp add: tagged_validate_name_top)
next
  case (Suc n)
  then have "n = 3 - Suc attempt" by simp
  from Suc.hyps(1)[OF this] show ?case
    by (rule tagged_validate_name_step)
qed


lemma tagged_print_items [tagged_intros]: "tagged_io (print_items i items)"
  by (induction items arbitrary: i) (auto intro!: tagged_intros)

lemma tagged_print_ml_groups_rules [tagged_intros]: "tagged_io (print_ml_groups_rules E i sgs)"
  by (induction sgs arbitrary: i) (auto intro!: tagged_intros)

lemma tagged_print_ml_groups_whitelist [tagged_intros]:
  "tagged_io (print_ml_groups_whitelist E i sgs)"
  by (induction sgs arbitrary: i) (auto intro!: tagged_intros simp: Let_def)

lemma tagged_print_networks [tagged_intros]: "tagged_io (print_networks i ns)"
  by (induction ns arbitrary: i) (auto intro!: tagged_intros)

lemma tagged_select_round [tagged_intros]:
  "tagged_io (select_round E items prompt min_count selection)"
  unfolding select_round_def
  by (auto intro!: tagged_intros split: exn.splits)

lemma extends_tagged_same_calls:
  "calls v = calls w \<Longrightarrow> extends_tagged v x \<Longrightarrow> extends_tagged w x"
  by (simp add: extends_tagged_def)

lemma tagged_ioD: "tagged_io m \<Longrightarrow> m w = (r, w') \<Longrightarrow> extends_tagged w w'"
  by (auto simp: tagged_io_def dest: spec[of _ w])

lemma tagged_select_loop [tagged_intros]: "tagged_io (select_loop E items prompt min_count)"
  unfolding tagged_io_def
proof
  fix w
  show "extends_tagged w (snd (select_loop E items prompt min_count w))"
  proof (induction E items prompt min_count w rule: select_loop.induct)
    case (1 E items prompt min_count w)
    obtain r w1 where i: "input (select_prompt prompt) w = (r, w1)"
      by (cases "input (select_prompt prompt) w")
    have e1: "extends_tagged w w1"
      using tagged_ioD[OF tagged_input i] .
    show ?case
    proof (cases r)
      case (Inl e)
      with i e1 show ?thesis by (subst select_loop.simps) simp
    next
      case (Inr selection)
      obtain r2 w2 where rd: "select_round E items prompt min_count selection w1 = (r2, w2)"
        by (cases "select_round E items prompt min_count selection w1")
      have e2: "extends_tagged w1 w2"
        using tagged_ioD[OF tagged_select_round rd] .
      have e12: "extends_tagged w w2"
        using e1 e2 by (rule extends_tagged_trans)
      show ?thesis
      proof (cases r2)
        case (Inl e)
        with i Inr rd e12 show ?thesis by (subst select_loop.simps) simp
      next
        case inner: (Inr chosen)
        show ?thesis
        proof (cases chosen)
          case (Some ids)
          with i Inr rd inner e12 show ?thesis by (subst select_loop.simps) simp
        next
          case None
          from "1.IH"[OF i[symmetric] Inr rd[symmetric] inner None]
          have "extends_tagged w2 (snd (select_loop E items prompt min_count w2))" .
          with e12 have "extends_tagged w (snd (select_loop E items prompt min_count w2))"
            by (rule extends_tagged_trans)
          with i Inr rd inner None show ?thesis by (subst select_loop.simps) simp
        qed
      qed
    qed
  qed
qed

lemma tagged_select_resources [tagged_intros]:
  "tagged_io (select_resources E items prompt multiple min_count)"
  unfolding select_resources_def by (intro tagged_intros)

lemma tagged_get_available_resources [tagged_intros]: "tagged_io (get_available_resources E)"
  unfolding get_available_resources_def
  by (auto intro!: tagged_intros simp: sg_tagged_def split: exn.splits)

lemma tagged_get_available_security_groups [tagged_intros]:
  "tagged_io (get_available_security_groups E)"
  unfolding get_available_security_groups_def
  by (auto intro!: tagged_intros simp: sg_tagged_def split: exn.splits)

lemma tagged_get_available_networks [tagged_intros]: "tagged_io (get_available_networks E)"
  unfolding get_available_networks_def
  by (auto intro!: tagged_intros simp: sg_tagged_def split: exn.splits)

lemma tagged_create_medialive_network [tagged_intros]:
  "tagged_io (create_medialive_network E name ip_pools routes)"
  unfolding create_medialive_network_def
  by (auto intro!: tagged_intros simp: sg_tagged_def split: exn.splits option.splits)

lemma tagged_create_input_kwargs [tagged_intros]: "tagged_io (create_input_kwargs E config)"
  unfolding create_input_kwargs_def
  by (auto intro!: tagged_intros simp: sg_tagged_def split: json.splits)


lemma calls_input: "input p w = (r, w') \<Longrightarrow> calls w' = calls w"
  by (auto simp: input_def split: list.splits)

lemma tagged_read_ip_pools [tagged_intros]: "tagged_io (read_ip_pools E ip_pools)"
  unfolding tagged_io_def
proof
  fix w
  show "extends_tagged w (snd (read_ip_pools E ip_pools w))"
  proof (induction E ip_pools w rule: read_ip_pools.induct)
    case (1 E ip_pools w)
    obtain r w1 where i: "input ''Enter IP pool CIDR (or leave empty to finish adding pools): '' w
                          = (r, w1)"
      by (cases "input ''Enter IP pool CIDR (or leave empty to finish adding pools): '' w")
    have c1: "calls w1 = calls w" using calls_input[OF i] .
    show ?case
    proof (cases r)
      case (Inl e)
      with i c1 show ?thesis
        by (subst read_ip_pools.simps) (simp add: extends_tagged_refl)
    next
      case (Inr cidr)
      have cp: "calls (snd (print ''Invalid CIDR format. Please try again.'' w1)) = calls w"
        using c1 by (simp add: print_def)
      have ih1: "cidr \<noteq> [] \<Longrightarrow> validate_cidr E cidr \<Longrightarrow>
                 extends_tagged w (snd (read_ip_pools E (ip_pools @ [cidr]) w1))"
        using "1.IH"(1)[OF i[symmetric] Inr] extends_tagged_same_calls[OF c1] by blast
      have ih2: "cidr \<noteq> [] \<Longrightarrow> \<not> validate_cidr E cidr \<Longrightarrow>
                 extends_tagged w (snd (read_ip_pools E ip_pools
                    (snd (print ''Invalid CIDR format. Please try again.'' w1))))"
        using "1.IH"(2)[OF i[symmetric] Inr] extends_tagged_same_calls[OF cp] by blast
      show ?thesis
        using ih1 ih2 c1
        by (subst read_ip_pools.simps) (simp add: i Inr extends_tagged_refl)
    qed
  qed
qed

lemma tagged_read_routes [tagged_intros]: "tagged_io (read_routes E routes)"
  unfolding tagged_io_def
proof
  fix w
  show "extends_tagged w (snd (read_routes E routes w))"
  proof (induction E routes w rule: read_routes.induct)
    case (1 E routes w)
    obtain r w1 where i: "input ''Enter route CIDR (or leave empty to finish adding routes): '' w
                          = (r, w1)"
      by (cases "input ''Enter route CIDR (or leave empty to finish adding routes): '' w")
    have c1: "calls w1 = calls w" using calls_input[OF i] .
    show ?case
    proof (cases r)
      case (Inl e)
      with i c1 show ?thesis
        by (subst read_routes.simps) (simp add: extends_tagged_refl)
    next
      case (Inr cidr)
      obtain r2 w2 where g: "input (''Enter gateway for '' @ cidr @ '': '') w1 = (r2, w2)"
        by (cases "input (''Enter gateway for '' @ cidr @ '': '') w1")
      have c2: "calls w2 = calls w" using calls_input[OF g] c1 by simp
      have cp: "calls (snd (print ''Invalid CIDR format. Please try again.'' w1)) = calls w"
        using c1 by (simp add: print_def)
      have ih2: "cidr \<noteq> [] \<Longrightarrow> \<not> validate_cidr E cidr \<Longrightarrow>
                 extends_tagged w (snd (read_routes E routes
                    (snd (print ''Invalid CIDR format. Please try again.'' w1))))"
        using "1.IH"(2)[OF i[symmetric] Inr] extends_tagged_same_calls[OF cp] by blast
      show ?thesis
      proof (cases r2)
        case gl: (Inl e)
        show ?thesis
          using ih2 c1 c2 g gl
          by (subst read_routes.simps) (simp add: i Inr extends_tagged_refl)
      next
        case gr: (Inr gateway)
        have ih1: "cidr \<noteq> [] \<Longrightarrow> validate_cidr E cidr \<Longrightarrow>
                 extends_tagged w (snd (read_routes E
                    (routes @ [\<lparr>Cidr = cidr, Gateway = Some gateway\<rparr>]) w2))"
          using "1.IH"(1)[OF i[symmetric] Inr _ _ g[symmetric] gr]
            extends_tagged_same_calls[OF c2] by blast
        show ?thesis
          using ih1 ih2 c1 c2 g gr
          by (subst read_routes.simps) (simp add: i Inr extends_tagged_refl)
      qed
    qed
  qed
qed

lemma tagged_create_new_network [tagged_intros]: "tagged_io (create_new_network E)"
  unfolding tagged_io_def
proof
  fix w
  show "extends_tagged w (snd (create_new_network E w))"
  proof (induction E w rule: create_new_network.induct)
    case (1 E w)
    obtain r w1 where i: "input ''Enter network name: '' w = (r, w1)"
      by (cases "input ''Enter network name: '' w")
    have e1: "extends_tagged w w1" using tagged_ioD[OF tagged_input i] .
    show ?case
    proof (cases r)
      case (Inl e)
      with i e1 show ?thesis by (subst create_new_network.simps) simp
    next
      case (Inr name)
      obtain r2 w2 where p: "read_ip_pools E [] w1 = (r2, w2)"
        by (cases "read_ip_pools E [] w1")
      have e2: "extends_tagged w w2"
        using e1 tagged_ioD[OF tagged_read_ip_pools p] by (rule extends_tagged_trans)
      show ?thesis
      proof (cases r2)
        case pl: (Inl e)
        with i Inr p e2 show ?thesis by (subst create_new_network.simps) simp
      next
        case pr: (Inr ip_pools)
        show ?thesis
        proof (cases "ip_pools = []")
          case True
          let ?w3 = "snd (print ''At least one IP pool is required.'' w2)"
          have "extends_tagged w2 ?w3"
            by (simp add: print_def extends_tagged_refl)
          with e2 have e3: "extends_tagged w ?w3" by (rule extends_tagged_trans)
          from "1.IH"[OF i[symmetric] Inr p[symmetric] pr True]
          have "extends_tagged ?w3 (snd (create_new_network E ?w3))" .
          with e3 have "extends_tagged w (snd (create_new_network E ?w3))"
            by (rule extends_tagged_trans)
          with i Inr p pr True show ?thesis by (subst create_new_network.simps) simp
        next
          case False
          let ?rest = "bnd (input ''Do you want to add network routes? (y/n): '') (\<lambda>answer.
                 bnd (if lower answer = ''y'' then read_routes E [] else ret []) (\<lambda>routes.
                 create_medialive_network E name ip_pools
                   (if routes \<noteq> [] then Some routes else None)))"
          have "tagged_io ?rest"
            by (intro tagged_intros)
          then have "extends_tagged w2 (snd (?rest w2))"
            by (simp add: tagged_io_def)
          with e2 have "extends_tagged w (snd (?rest w2))" by (rule extends_tagged_trans)
          with i Inr p pr False show ?thesis by (subst create_new_network.simps) simp
        qed
      qed
    qed
  qed
qed

lemma tagged_aws_branch [tagged_intros]: "tagged_io (aws_branch E args st)"
  unfolding aws_branch_def Let_def
  by (intro tagged_intros) (simp_all add: sg_tagged_def)

lemma tagged_vpc_subnets [tagged_intros]: "tagged_io (vpc_subnets E args subnets st)"
  unfolding vpc_subnets_def Let_def
  by (intro tagged_intros)

lemma tagged_vpc_security_group [tagged_intros]: "tagged_io (vpc_security_group E args groups st)"
  unfolding vpc_security_group_def Let_def
  by (intro tagged_intros)

lemma tagged_aws_vpc_branch [tagged_intros]:
  "tagged_io (aws_vpc_branch E args subnets groups st)"
  unfolding aws_vpc_branch_def Let_def
  by (intro tagged_intros)

lemma tagged_on_premises_branch [tagged_intros]: "tagged_io (on_premises_branch E args st)"
  unfolding on_premises_branch_def Let_def
  by (intro tagged_intros)

lemma tagged_create_rtmp_input: "tagged_io (create_rtmp_input E args direct_config)"
  unfolding create_rtmp_input_def Let_def
  by (intro tagged_intros) (auto simp: sg_tagged_def intro!: tagged_intros split: exn.splits)

lemma tagged_load_config [tagged_intros]: "tagged_io (load_config E file_path)"
  unfolding load_config_def
  by (intro tagged_intros) (auto intro!: tagged_intros split: exn.splits)

lemma tagged_create_security_group [tagged_intros]: "tagged_io (create_security_group E cidr)"
  unfolding create_security_group_def
  by (intro tagged_intros) (auto simp: sg_tagged_def intro!: tagged_intros split: exn.splits)

lemma tagged_create_network [tagged_intros]: "tagged_io (create_network E name ip_pools routes)"
  unfolding create_network_def
  by (intro tagged_intros) (auto simp: sg_tagged_def intro!: tagged_intros split: exn.splits)

lemma tagged_quick_create_rtmp_input: "tagged_io (quick_create_rtmp_input E args)"
  unfolding quick_create_rtmp_input_def Let_def
  by (intro tagged_intros) (auto simp: sg_tagged_def intro!: tagged_intros split: exn.splits)

text \<open>
  Claim C8. Whatever the arguments, the provider's answers and the operator's input, the
  calls either builder adds to the call log are all \<open>sg_tagged\<close>: every
  \<^verbatim>\<open>create_input_security_group\<close> request made on any path carries the tag
  \<^verbatim>\<open>AutoCreated=True\<close>.
\<close>

theorem created_security_groups_tagged:
  "extends_tagged w (snd (create_rtmp_input E args direct_config w))
   \<and> extends_tagged w (snd (quick_create_rtmp_input E args w))"
  using tagged_create_rtmp_input[of E args direct_config] tagged_quick_create_rtmp_input[of E args]
  by (simp add: tagged_io_def)

lemma full_aws_creates_group:
  "calls (snd (create_rtmp_input demo_env aws_args None (w0\<lparr>stdin := [''10.0.0.0/8'']\<rparr>)))
     ! 3 = CreateInputSecurityGroup [''10.0.0.0/8''] [(''AutoCreated'', ''True'')]"
  by code_simp

lemma quick_aws_creates_group:
  "calls (snd (quick_create_rtmp_input demo_env aws_args w0)) ! 0
     = CreateInputSecurityGroup [''0.0.0.0/0''] [(''AutoCreated'', ''True'')]"
  by code_simp

theorem created_security_groups_tagged_witness:
  "extends_tagged (w0\<lparr>stdin := [''10.0.0.0/8'']\<rparr>)
     (snd (create_rtmp_input demo_env aws_args None (w0\<lparr>stdin := [''10.0.0.0/8'']\<rparr>)))
   \<and> calls (snd (create_rtmp_input demo_env aws_args None (w0\<lparr>stdin := [''10.0.0.0/8'']\<rparr>)))
       ! 3 = CreateInputSecurityGroup [''10.0.0.0/8''] [(''AutoCreated'', ''True'')]
   \<and> extends_tagged w0 (snd (quick_create_rtmp_input demo_env aws_args w0))
   \<and> calls (snd (quick_create_rtmp_input demo_env aws_args w0)) ! 0
       = CreateInputSecurityGroup [''0.0.0.0/0''] [(''AutoCreated'', ''True'')]"
  using created_security_groups_tagged [of "w0\<lparr>stdin := [''10.0.0.0/8'']\<rparr>" demo_env aws_args None]
    created_security_groups_tagged [of w0 demo_env aws_args None]
    full_aws_creates_group quick_aws_creates_group
  by blast

section \<open>The security group of a VPC input\<close>

















end
